theory Spec2Isabelle
  imports Complex_Main "HOL-Library.Word" "HOL-Library.Multiset" "HOL-Library.Sublist"
begin

section \<open>llmpole: the hardware-fit engine (packages models and pole)\<close>

text \<open>
  The Go sources embedded here are \<^verbatim>\<open>internal/models/types.go\<close>,
  \<^verbatim>\<open>internal/models/quant.go\<close>, the use-case classifier of package models and the
  fit engine of package pole (\<^verbatim>\<open>Analyze\<close>, \<^verbatim>\<open>RankModelsByFit\<close>,
  \<^verbatim>\<open>FilterByUseCase\<close> and their helpers).

  Conventions of the embedding:
  \<^item> a Go \<^verbatim>\<open>float64\<close> is a value of the type \<open>float64\<close> below: a finite number, one
    of the two infinities, or NaN, with the comparisons and the special cases of the
    arithmetic of IEEE 754;
  \<^item> \<^verbatim>\<open>uint32\<close> and \<^verbatim>\<open>uint64\<close> are \<^typ>\<open>32 word\<close> and \<^typ>\<open>64 word\<close>; Go's
    \<^verbatim>\<open>int\<close> (only compared, never computed with) is \<^typ>\<open>int\<close>;
  \<^item> a nilable pointer field is an \<^typ>\<open>'a option\<close>; reading through it is the fallible
    operation \<open>deref\<close>, so that a nil dereference is a value of the model;
  \<^item> a Go string is a byte list (\<^typ>\<open>string\<close>);
  \<^item> what the code takes from the standard library and is no code of the repository
    (the Unicode tables behind package strings, the parser of package strconv) is
    the parameter \<open>lib\<close> of every function that reaches it;
  \<^item> the build constant \<^verbatim>\<open>runtime.GOARCH == "arm64"\<close> is a Boolean parameter.
\<close>

subsection \<open>Run-time errors as values\<close>

datatype error = NilDeref | SliceBounds | DivByZero

definition bindE :: "error + 'a \<Rightarrow> ('a \<Rightarrow> error + 'b) \<Rightarrow> error + 'b" where
  "bindE r f = (case r of Inl e \<Rightarrow> Inl e | Inr x \<Rightarrow> f x)"

text \<open>\<^verbatim>\<open>*p\<close>: panics on nil.\<close>

definition deref :: "'a option \<Rightarrow> error + 'a" where
  "deref p = (case p of None \<Rightarrow> Inl NilDeref | Some v \<Rightarrow> Inr v)"

text \<open>\<^verbatim>\<open>s[:n]\<close> for a signed index \<open>n\<close>: panics unless \<open>0 \<le> n \<le> len(s)\<close>.\<close>

definition slice_to :: "string \<Rightarrow> int \<Rightarrow> error + string" where
  "slice_to s n = (if 0 \<le> n \<and> n \<le> int (length s) then Inr (take (nat n) s) else Inl SliceBounds)"

subsection \<open>float64\<close>

text \<open>
  A finite value is the real number it stands for. An operation on finite values gives
  the exact result: the rounding to the nearest double and the overflow of a finite
  result to an infinity are left out, so a statement is made of the code only where it
  does not depend on them (an order that rounding preserves, a sign, a special value).
  The two zeros are one value; they differ only as divisors, and a zero divisor is an
  error of the model (\<open>fdiv\<close>).
\<close>

datatype float64 = Fin real | PInf | NInf | NaN

fun fadd :: "float64 \<Rightarrow> float64 \<Rightarrow> float64" where
  "fadd (Fin x) (Fin y) = Fin (x + y)"
| "fadd NaN b = NaN"
| "fadd a NaN = NaN"
| "fadd PInf NInf = NaN"
| "fadd NInf PInf = NaN"
| "fadd PInf b = PInf"
| "fadd a PInf = PInf"
| "fadd NInf b = NInf"
| "fadd a NInf = NInf"

fun fsub :: "float64 \<Rightarrow> float64 \<Rightarrow> float64" where
  "fsub (Fin x) (Fin y) = Fin (x - y)"
| "fsub NaN b = NaN"
| "fsub a NaN = NaN"
| "fsub PInf PInf = NaN"
| "fsub NInf NInf = NaN"
| "fsub PInf b = PInf"
| "fsub a NInf = PInf"
| "fsub NInf b = NInf"
| "fsub a PInf = NInf"

text \<open>The sign of an infinity times, or over, a finite value.\<close>

definition inf_signed :: "bool \<Rightarrow> real \<Rightarrow> float64" where
  "inf_signed positive y = (if (0 < y) = positive then PInf else NInf)"

fun fmul :: "float64 \<Rightarrow> float64 \<Rightarrow> float64" where
  "fmul (Fin x) (Fin y) = Fin (x * y)"
| "fmul NaN b = NaN"
| "fmul a NaN = NaN"
| "fmul PInf (Fin y) = (if y = 0 then NaN else inf_signed True y)"
| "fmul NInf (Fin y) = (if y = 0 then NaN else inf_signed False y)"
| "fmul (Fin x) PInf = (if x = 0 then NaN else inf_signed True x)"
| "fmul (Fin x) NInf = (if x = 0 then NaN else inf_signed False x)"
| "fmul PInf PInf = PInf"
| "fmul NInf NInf = PInf"
| "fmul PInf NInf = NInf"
| "fmul NInf PInf = NInf"

text \<open>The quotient by a divisor that is not zero.\<close>

fun fquot :: "float64 \<Rightarrow> float64 \<Rightarrow> float64" where
  "fquot (Fin x) (Fin y) = Fin (x / y)"
| "fquot NaN b = NaN"
| "fquot a NaN = NaN"
| "fquot (Fin x) PInf = Fin 0"
| "fquot (Fin x) NInf = Fin 0"
| "fquot PInf (Fin y) = inf_signed True y"
| "fquot NInf (Fin y) = inf_signed False y"
| "fquot PInf b = NaN"
| "fquot NInf b = NaN"

text \<open>
  A division whose divisor is not a literal. Go yields an infinity or NaN for a zero
  divisor, of a sign that depends on the sign of the zero; the model reports it as an
  error, so that a result \<open>Inr\<close> certifies that no such division took place.
\<close>

definition fdiv :: "float64 \<Rightarrow> float64 \<Rightarrow> error + float64" where
  "fdiv x y = (if y = Fin 0 then Inl DivByZero else Inr (fquot x y))"

text \<open>The comparisons: false as soon as an operand is NaN.\<close>

fun flt :: "float64 \<Rightarrow> float64 \<Rightarrow> bool" where
  "flt (Fin x) (Fin y) = (x < y)"
| "flt NaN b = False"
| "flt a NaN = False"
| "flt a NInf = False"
| "flt PInf b = False"
| "flt NInf b = True"
| "flt a PInf = True"

fun fle :: "float64 \<Rightarrow> float64 \<Rightarrow> bool" where
  "fle (Fin x) (Fin y) = (x \<le> y)"
| "fle NaN b = False"
| "fle a NaN = False"
| "fle NInf b = True"
| "fle a PInf = True"
| "fle a NInf = False"
| "fle PInf b = False"

definition fgt :: "float64 \<Rightarrow> float64 \<Rightarrow> bool" where
  "fgt a b = flt b a"

definition fge :: "float64 \<Rightarrow> float64 \<Rightarrow> bool" where
  "fge a b = fle b a"

text \<open>\<^verbatim>\<open>math.MaxFloat64\<close>, the largest finite double.\<close>

definition MaxFloat64 :: float64 where
  "MaxFloat64 = Fin ((2 ^ 53 - 1) * 2 ^ 971)"

text \<open>\<^verbatim>\<open>math.Round\<close>: to the nearest integer, halves away from zero; an infinity and NaN
  are returned as they are.\<close>

fun Round :: "float64 \<Rightarrow> float64" where
  "Round (Fin x) =
     Fin (if x < 0 then - real_of_int \<lfloor>- x + 1 / 2\<rfloor> else real_of_int \<lfloor>x + 1 / 2\<rfloor>)"
| "Round a = a"

subsection \<open>Package strings (standard library)\<close>

text \<open>
  What the fit engine takes from the standard library without its being code of the
  repository. Package strings works on bytes as long as a string is ASCII and turns
  to the Unicode tables at the first byte that is not; the four functions below are
  these Unicode paths: \<^verbatim>\<open>Map(unicode.ToLower, s)\<close>, \<^verbatim>\<open>Map(unicode.ToUpper, s)\<close>,
  \<^verbatim>\<open>TrimFunc(s, unicode.IsSpace)\<close> and \<^verbatim>\<open>TrimRightFunc(s, unicode.IsSpace)\<close>. The
  fifth is \<^verbatim>\<open>strconv.ParseFloat(s, 64)\<close>: the value it returns and whether the error
  is nil.
\<close>

record stdlib =
  unicode_ToLower :: "string \<Rightarrow> string"
  unicode_ToUpper :: "string \<Rightarrow> string"
  unicode_TrimSpace :: "string \<Rightarrow> string"
  unicode_TrimRightSpace :: "string \<Rightarrow> string"
  strconv_ParseFloat :: "string \<Rightarrow> float64 \<times> bool"

text \<open>\<^verbatim>\<open>c < utf8.RuneSelf\<close>\<close>

definition is_ascii :: "char \<Rightarrow> bool" where
  "is_ascii c = ((of_char c :: nat) < 128)"

definition is_digit :: "char \<Rightarrow> bool" where
  "is_digit c = (48 \<le> (of_char c :: nat) \<and> (of_char c :: nat) \<le> 57)"

text \<open>The table \<^verbatim>\<open>asciiSpace\<close>: tab, line feed, vertical tab, form feed, carriage return
  and space.\<close>

definition is_space :: "char \<Rightarrow> bool" where
  "is_space c = ((9 \<le> (of_char c :: nat) \<and> (of_char c :: nat) \<le> 13) \<or> (of_char c :: nat) = 32)"

definition lower_of :: "char \<Rightarrow> char" where
  "lower_of c =
     (case map_of (zip ''ABCDEFGHIJKLMNOPQRSTUVWXYZ'' ''abcdefghijklmnopqrstuvwxyz'') c of
        None \<Rightarrow> c | Some l \<Rightarrow> l)"

definition upper_of :: "char \<Rightarrow> char" where
  "upper_of c =
     (case map_of (zip ''abcdefghijklmnopqrstuvwxyz'' ''ABCDEFGHIJKLMNOPQRSTUVWXYZ'') c of
        None \<Rightarrow> c | Some u \<Rightarrow> u)"

text \<open>\<^verbatim>\<open>strings.ToLower\<close> and \<^verbatim>\<open>strings.ToUpper\<close>: the byte map on an ASCII string, the
  Unicode map on any other.\<close>

definition ToLower :: "stdlib \<Rightarrow> string \<Rightarrow> string" where
  "ToLower lib s = (if list_all is_ascii s then map lower_of s else unicode_ToLower lib s)"

definition ToUpper :: "stdlib \<Rightarrow> string \<Rightarrow> string" where
  "ToUpper lib s = (if list_all is_ascii s then map upper_of s else unicode_ToUpper lib s)"

text \<open>
  \<^verbatim>\<open>strings.TrimSpace\<close>: it skips ASCII white space from the start; at a byte that is not
  ASCII it hands what is left to \<^verbatim>\<open>TrimFunc\<close>. Otherwise it skips ASCII white space
  from the end; at a byte that is not ASCII it hands what is left to \<^verbatim>\<open>TrimRightFunc\<close>.
\<close>

definition TrimSpace :: "stdlib \<Rightarrow> string \<Rightarrow> string" where
  "TrimSpace lib s =
     (let t = dropWhile is_space s
      in case t of
           [] \<Rightarrow> []
         | c # cs \<Rightarrow>
             if \<not> is_ascii c then unicode_TrimSpace lib t
             else
               (let r = dropWhile is_space (rev t)
                in case r of
                     [] \<Rightarrow> []
                   | d # ds \<Rightarrow>
                       if \<not> is_ascii d then unicode_TrimRightSpace lib (rev r) else rev r))"

text \<open>\<^verbatim>\<open>len(s) >= len(suffix) && s[len(s)-len(suffix):] == suffix\<close>\<close>

definition HasSuffix :: "string \<Rightarrow> string \<Rightarrow> bool" where
  "HasSuffix s suf = (length suf \<le> length s \<and> drop (length s - length suf) s = suf)"

text \<open>\<^verbatim>\<open>strings.Contains\<close>: a substring test on bytes.\<close>

fun Contains :: "string \<Rightarrow> string \<Rightarrow> bool" where
  "Contains [] sub = (sub = [])"
| "Contains (c # cs) sub = (prefix sub (c # cs) \<or> Contains cs sub)"

subsection \<open>The library on the inputs of the tests\<close>

text \<open>
  \<^verbatim>\<open>strconv.ParseFloat(s, 64)\<close> on decimal input: an optional sign, digits with at most
  one point and at least one digit, an optional exponent \<^verbatim>\<open>e\<close> or \<^verbatim>\<open>E\<close> with an
  optional sign and at least one digit, and nothing after it; and on the special values
  \<^verbatim>\<open>inf\<close> and \<^verbatim>\<open>infinity\<close> (with an optional sign) and \<^verbatim>\<open>nan\<close>, in any case. On a
  syntax error Go returns the value 0 with the error. Hexadecimal mantissas and
  digit-separating underscores are not read, and a decimal value is not rounded: this
  parser serves to evaluate the code on the strings of the tests, and no statement about
  all strings rests on it.
\<close>

definition digits_val :: "string \<Rightarrow> nat" where
  "digits_val ds = foldl (\<lambda>a c. 10 * a + ((of_char c :: nat) - 48)) 0 ds"

definition read_sign :: "string \<Rightarrow> bool \<times> string" where
  "read_sign s = (case s of [] \<Rightarrow> (False, [])
     | c # r \<Rightarrow> if c = CHR ''+'' then (False, r) else if c = CHR ''-'' then (True, r) else (False, s))"

definition read_exp :: "string \<Rightarrow> int option" where
  "read_exp s = (case s of [] \<Rightarrow> Some 0
     | c # r \<Rightarrow>
        if c = CHR ''e'' \<or> c = CHR ''E'' then
          (case read_sign r of (neg, ds) \<Rightarrow>
             if ds \<noteq> [] \<and> list_all is_digit ds
             then Some (if neg then - int (digits_val ds) else int (digits_val ds))
             else None)
        else None)"

definition read_special :: "string \<Rightarrow> float64 option" where
  "read_special s =
     (if map lower_of s = ''nan'' then Some NaN
      else case read_sign s of (neg, r) \<Rightarrow>
        if map lower_of r = ''inf'' \<or> map lower_of r = ''infinity''
        then Some (if neg then NInf else PInf) else None)"

definition ParseFloat_decimal :: "string \<Rightarrow> float64 \<times> bool" where
  "ParseFloat_decimal s =
     (case read_special s of
        Some v \<Rightarrow> (v, True)
      | None \<Rightarrow>
          (case read_sign s of (neg, s1) \<Rightarrow>
             let ip = takeWhile is_digit s1;
                 s2 = dropWhile is_digit s1;
                 fp = (case s2 of [] \<Rightarrow> []
                       | c # r \<Rightarrow> if c = CHR ''.'' then takeWhile is_digit r else []);
                 s3 = (case s2 of [] \<Rightarrow> []
                       | c # r \<Rightarrow> if c = CHR ''.'' then dropWhile is_digit r else s2)
             in if ip = [] \<and> fp = [] then (Fin 0, False)
                else (case read_exp s3 of
                        None \<Rightarrow> (Fin 0, False)
                      | Some e \<Rightarrow>
                          (Fin ((if neg then - 1 else 1) * real (digits_val (ip @ fp))
                                  * 10 powi (e - int (length fp))), True))))"

text \<open>The library for ASCII strings: no ASCII string reaches a Unicode path, which is
  left as the identity here.\<close>

definition stdlib_ascii :: stdlib where
  "stdlib_ascii =
     \<lparr>unicode_ToLower = (\<lambda>s. s), unicode_ToUpper = (\<lambda>s. s), unicode_TrimSpace = (\<lambda>s. s),
      unicode_TrimRightSpace = (\<lambda>s. s), strconv_ParseFloat = ParseFloat_decimal\<rparr>"
subsection \<open>Package models: quantization catalogue (quant.go)\<close>

definition QuantHierarchy :: "string list" where
  "QuantHierarchy = [''Q8_0'', ''Q6_K'', ''Q5_K_M'', ''Q4_K_M'', ''Q3_K_M'', ''Q2_K'']"

definition QuantBPP :: "string \<Rightarrow> float64" where
  "QuantBPP quant =
     (if quant = ''F32'' then Fin 4.0
      else if quant = ''F16'' \<or> quant = ''BF16'' then Fin 2.0
      else if quant = ''Q8_0'' then Fin 1.05
      else if quant = ''Q6_K'' then Fin 0.80
      else if quant = ''Q5_K_M'' then Fin 0.68
      else if quant = ''Q4_K_M'' \<or> quant = ''Q4_0'' then Fin 0.58
      else if quant = ''Q3_K_M'' then Fin 0.48
      else if quant = ''Q2_K'' then Fin 0.37
      else Fin 0.58)"

definition QuantSpeedMultiplier :: "string \<Rightarrow> float64" where
  "QuantSpeedMultiplier quant =
     (if quant = ''F16'' \<or> quant = ''BF16'' then Fin 0.6
      else if quant = ''Q8_0'' then Fin 0.8
      else if quant = ''Q6_K'' then Fin 0.95
      else if quant = ''Q5_K_M'' then Fin 1.0
      else if quant = ''Q4_K_M'' \<or> quant = ''Q4_0'' then Fin 1.15
      else if quant = ''Q3_K_M'' then Fin 1.25
      else if quant = ''Q2_K'' then Fin 1.35
      else Fin 1.0)"

definition QuantQualityPenalty :: "string \<Rightarrow> float64" where
  "QuantQualityPenalty quant =
     (if quant = ''F16'' \<or> quant = ''BF16'' \<or> quant = ''Q8_0'' then Fin 0.0
      else if quant = ''Q6_K'' then Fin (- 1.0)
      else if quant = ''Q5_K_M'' then Fin (- 2.0)
      else if quant = ''Q4_K_M'' \<or> quant = ''Q4_0'' then Fin (- 5.0)
      else if quant = ''Q3_K_M'' then Fin (- 8.0)
      else if quant = ''Q2_K'' then Fin (- 12.0)
      else Fin (- 5.0))"

subsection \<open>Package models: the model record (types.go)\<close>

datatype UseCase =
  UseCaseGeneral | UseCaseCoding | UseCaseReasoning | UseCaseChat | UseCaseMultimodal | UseCaseEmbedding

record LlmModel =
  Name :: string
  Provider :: string
  ParameterCount :: string
  ParametersRaw :: "64 word option"
  MinRAMGB :: float64
  RecommendedRAMGB :: float64
  MinVRAMGB :: "float64 option"
  Quantization :: string
  ContextLength :: "32 word"
  UseCase :: string
  IsMoE :: bool
  NumExperts :: "32 word option"
  ActiveExperts :: "32 word option"
  ActiveParameters :: "64 word option"

definition ParamsB :: "stdlib \<Rightarrow> LlmModel \<Rightarrow> error + float64" where
  "ParamsB lib m =
     (if ParametersRaw m \<noteq> None then
        bindE (deref (ParametersRaw m)) (\<lambda>raw.
          Inr (fquot (Fin (real (unat raw))) (Fin 1000000000)))
      else
        let s = TrimSpace lib (ToUpper lib (ParameterCount m)) in
        if HasSuffix s ''B'' then
          bindE (slice_to s (int (length s) - 1)) (\<lambda>t.
            Inr (fst (strconv_ParseFloat lib (TrimSpace lib t))))
        else if HasSuffix s ''M'' then
          bindE (slice_to s (int (length s) - 1)) (\<lambda>t.
            Inr (fquot (fst (strconv_ParseFloat lib (TrimSpace lib t))) (Fin 1000)))
        else Inr (Fin 7.0))"

definition EstimateMemoryGB :: "stdlib \<Rightarrow> LlmModel \<Rightarrow> string \<Rightarrow> 32 word \<Rightarrow> error + float64" where
  "EstimateMemoryGB lib m quant ctx =
     (let bpp = QuantBPP quant in
      bindE (ParamsB lib m) (\<lambda>params.
        let modelMem = fmul params bpp;
            kvCache = fmul (fmul (Fin 0.000008) params) (Fin (real (unat ctx)));
            overhead = Fin 0.5
        in Inr (fadd (fadd modelMem kvCache) overhead)))"

text \<open>The loop \<^verbatim>\<open>for _, q := range QuantHierarchy\<close> of \<^verbatim>\<open>BestQuantForBudget\<close>, which
  returns from the function at the first quantization that fits; \<open>None\<close> is falling
  out of the loop.\<close>

fun BestQuantForBudget_scan ::
  "stdlib \<Rightarrow> LlmModel \<Rightarrow> float64 \<Rightarrow> 32 word \<Rightarrow> string list \<Rightarrow> error + (string \<times> float64) option" where
  "BestQuantForBudget_scan lib m budgetGB ctx [] = Inr None"
| "BestQuantForBudget_scan lib m budgetGB ctx (q # qs) =
     bindE (EstimateMemoryGB lib m q ctx) (\<lambda>mem.
       if fle mem budgetGB then Inr (Some (q, mem))
       else BestQuantForBudget_scan lib m budgetGB ctx qs)"

definition BestQuantForBudget ::
  "stdlib \<Rightarrow> LlmModel \<Rightarrow> float64 \<Rightarrow> 32 word \<Rightarrow> error + (string \<times> float64)" where
  "BestQuantForBudget lib m budgetGB ctx =
     bindE (BestQuantForBudget_scan lib m budgetGB ctx QuantHierarchy) (\<lambda>r.
       case r of
         Some qm \<Rightarrow> Inr qm
       | None \<Rightarrow>
           let halfCtx = ctx div 2 in
           bindE (if 1024 \<le> halfCtx
                  then BestQuantForBudget_scan lib m budgetGB halfCtx QuantHierarchy
                  else Inr None) (\<lambda>r2.
             case r2 of
               Some qm \<Rightarrow> Inr qm
             | None \<Rightarrow>
                 bindE (EstimateMemoryGB lib m (Quantization m) ctx) (\<lambda>mem.
                   Inr (Quantization m, mem))))"

definition quantBPP :: "LlmModel \<Rightarrow> float64" where
  "quantBPP m = QuantBPP (Quantization m)"

text \<open>The two MoE estimates return a pointer that is nil when the figure is undefined.\<close>

definition MoeActiveVRAMGB :: "LlmModel \<Rightarrow> error + float64 option" where
  "MoeActiveVRAMGB m =
     (if \<not> IsMoE m \<or> ActiveParameters m = None then Inr None
      else
        bindE (deref (ActiveParameters m)) (\<lambda>ap.
          let activeParams = Fin (real (unat ap));
              bpp = quantBPP m;
              sizeGB = fquot (fmul activeParams bpp) (Fin (1024 * 1024 * 1024));
              v = fmul sizeGB (Fin 1.1)
          in Inr (Some (if flt v (Fin 0.5) then Fin 0.5 else v))))"

definition MoeOffloadedRAMGB :: "LlmModel \<Rightarrow> error + float64 option" where
  "MoeOffloadedRAMGB m =
     (if \<not> IsMoE m \<or> ActiveParameters m = None \<or> ParametersRaw m = None then Inr None
      else
        bindE (deref (ActiveParameters m)) (\<lambda>ap.
        bindE (deref (ParametersRaw m)) (\<lambda>raw.
          let active = Fin (real (unat ap));
              total = Fin (real (unat raw));
              inactive = fsub total active
          in if fle inactive (Fin 0) then Inr (Some (Fin 0.0))
             else
               let bpp = quantBPP m
               in Inr (Some (fquot (fmul inactive bpp) (Fin (1024 * 1024 * 1024)))))))"

subsection \<open>Package models: use-case classification\<close>

definition UseCaseFromModel :: "stdlib \<Rightarrow> LlmModel \<Rightarrow> UseCase" where
  "UseCaseFromModel lib m =
     (let name = ToLower lib (Name m);
          uc = ToLower lib (LlmModel.UseCase m)
      in if Contains uc ''embedding'' \<or> Contains name ''embed'' \<or> Contains name ''bge''
           then UseCaseEmbedding
         else if Contains name ''code'' \<or> Contains uc ''code'' then UseCaseCoding
         else if Contains uc ''vision'' \<or> Contains uc ''multimodal'' then UseCaseMultimodal
         else if Contains uc ''reason'' \<or> Contains uc ''chain-of-thought''
                 \<or> Contains name ''deepseek-r1''
           then UseCaseReasoning
         else if Contains uc ''chat'' \<or> Contains uc ''instruction'' then UseCaseChat
         else UseCaseGeneral)"

subsection \<open>Package hardware: the snapshot read by the fit engine\<close>

datatype GpuBackend =
  BackendCuda | BackendMetal | BackendRocm | BackendVulkan | BackendSycl | BackendCpuArm | BackendCpuX86

text \<open>The per-device list \<^verbatim>\<open>Gpus\<close> of the Go struct, which package pole never reads,
  is left out of the record.\<close>

record SystemSpecs =
  TotalRAMGB :: float64
  AvailableRAMGB :: float64
  TotalCPUCores :: int
  CPUName :: string
  HasGPU :: bool
  GpuVRAMGB :: "float64 option"
  GpuName :: "string option"
  GpuCount :: "32 word"
  UnifiedMemory :: bool
  Backend :: GpuBackend

subsection \<open>Package pole: fit results\<close>

datatype FitLevel = FitPerfect | FitGood | FitMarginal | FitTooTight

datatype RunMode = RunModeGpu | RunModeMoeOffload | RunModeCpuOffload | RunModeCpuOnly

text \<open>A note is a string; one built by \<^verbatim>\<open>fmt.Sprintf\<close> is kept as its format string
  and arguments, unrendered.\<close>

datatype fmtarg = ArgUint "32 word" | ArgFloat float64

datatype fitnote = Note string | Sprintf string "fmtarg list"

record ScoreComponents =
  Quality :: float64
  Speed :: float64
  Fit :: float64
  Context :: float64

record ModelFit =
  Model :: LlmModel
  FitLevel :: FitLevel
  RunMode :: RunMode
  MemoryRequiredGB :: float64
  MemoryAvailableGB :: float64
  UtilizationPct :: float64
  Notes :: "fitnote list"
  MoeOffloadedGB :: "float64 option"
  Score :: float64
  ScoreComponents :: ScoreComponents
  EstimatedTPS :: float64
  BestQuant :: string
  UseCase :: UseCase

subsection \<open>Package pole: run-mode selection\<close>

definition cpuPath :: "LlmModel \<Rightarrow> SystemSpecs \<Rightarrow> fitnote list \<Rightarrow> RunMode \<times> float64 \<times> float64 \<times> fitnote list" where
  "cpuPath model system notes =
     (let notes = notes @ [Note ''CPU-only: model loaded into system RAM''];
          notes = (if IsMoE model
                   then notes @ [Note ''MoE architecture, but expert offloading requires a GPU'']
                   else notes)
      in (RunModeCpuOnly, MinRAMGB model, AvailableRAMGB system, notes))"

definition moeOffloadPath ::
  "LlmModel \<Rightarrow> SystemSpecs \<Rightarrow> float64 \<Rightarrow> float64 \<Rightarrow> fitnote list
     \<Rightarrow> error + (RunMode \<times> float64 \<times> float64 \<times> fitnote list)" where
  "moeOffloadPath model system systemVram totalVram notes =
     bindE (MoeActiveVRAMGB model) (\<lambda>moeVram.
     bindE (if moeVram \<noteq> None then
              bindE (MoeOffloadedRAMGB model) (\<lambda>offload.
              bindE (if offload \<noteq> None then deref offload else Inr (Fin 0.0)) (\<lambda>offloadGB.
              bindE (deref moeVram) (\<lambda>mv.
                if fle mv systemVram \<and> fle offloadGB (AvailableRAMGB system) then
                  bindE (if ActiveExperts model \<noteq> None then deref (ActiveExperts model) else Inr 0) (\<lambda>ne.
                  bindE (if NumExperts model \<noteq> None then deref (NumExperts model) else Inr 0) (\<lambda>nn.
                    Inr (Some (RunModeMoeOffload, mv, systemVram,
                      notes @
                      [Sprintf ''MoE: %d/%d experts active in VRAM (%.1f GB)''
                         [ArgUint ne, ArgUint nn, ArgFloat mv],
                       Sprintf ''Inactive experts offloaded to system RAM (%.1f GB)''
                         [ArgFloat offloadGB]]))))
                else Inr None)))
            else Inr None) (\<lambda>returned.
       case returned of
         Some r \<Rightarrow> Inr r
       | None \<Rightarrow>
           if fle (MinRAMGB model) (AvailableRAMGB system) then
             Inr (RunModeCpuOffload, MinRAMGB model, AvailableRAMGB system,
                  notes @
                  [Note ''MoE: insufficient VRAM for expert offloading'',
                   Note ''Spilling entire model to system RAM'',
                   Note ''Performance will be significantly reduced''])
           else
             bindE (MoeActiveVRAMGB model) (\<lambda>again.
             bindE (if again \<noteq> None then bindE (MoeActiveVRAMGB model) deref
                    else Inr totalVram) (\<lambda>mav.
               Inr (RunModeGpu, totalVram, systemVram,
                    notes @
                    [Note ''Insufficient VRAM and system RAM'',
                     Sprintf ''Need %.1f GB VRAM (full) or %.1f GB (MoE offload) + RAM''
                       [ArgFloat totalVram, ArgFloat mav]])))))"

text \<open>The \<^verbatim>\<open>if system.HasGPU\<close> tree of \<^verbatim>\<open>Analyze\<close>, which assigns
  \<^verbatim>\<open>runMode\<close>, \<^verbatim>\<open>memRequired\<close>, \<^verbatim>\<open>memAvailable\<close> and appends to \<^verbatim>\<open>notes\<close>.\<close>

definition Analyze_select ::
  "LlmModel \<Rightarrow> SystemSpecs \<Rightarrow> float64 \<Rightarrow> fitnote list
     \<Rightarrow> error + (RunMode \<times> float64 \<times> float64 \<times> fitnote list)" where
  "Analyze_select model system minVram notes =
     (if HasGPU system then
        if UnifiedMemory system then
          if GpuVRAMGB system \<noteq> None then
            let notes = notes @ [Note ''Unified memory: GPU and CPU share the same pool'']
            in bindE (if IsMoE model \<and> NumExperts model \<noteq> None then
                        bindE (if ActiveExperts model \<noteq> None then deref (ActiveExperts model)
                               else Inr 0) (\<lambda>ne.
                        bindE (deref (NumExperts model)) (\<lambda>nn.
                          Inr (notes @
                            [Sprintf ''MoE: %d/%d experts active (all share unified memory pool)''
                               [ArgUint ne, ArgUint nn]])))
                      else Inr notes) (\<lambda>notes.
               bindE (deref (GpuVRAMGB system)) (\<lambda>vram.
                 Inr (RunModeGpu, minVram, vram, notes)))
          else Inr (cpuPath model system notes)
        else if GpuVRAMGB system \<noteq> None then
          bindE (deref (GpuVRAMGB system)) (\<lambda>sysVram.
            if fle minVram sysVram then
              let notes = notes @ [Note ''GPU: model loaded into VRAM'']
              in bindE (if IsMoE model \<and> NumExperts model \<noteq> None then
                          bindE (deref (NumExperts model)) (\<lambda>nn.
                            Inr (notes @
                              [Sprintf ''MoE: all %d experts loaded in VRAM (optimal)'' [ArgUint nn]]))
                        else Inr notes) (\<lambda>notes.
                 Inr (RunModeGpu, minVram, sysVram, notes))
            else if IsMoE model then moeOffloadPath model system sysVram minVram notes
            else if fle (MinRAMGB model) (AvailableRAMGB system) then
              Inr (RunModeCpuOffload, MinRAMGB model, AvailableRAMGB system,
                   notes @
                   [Note ''GPU: insufficient VRAM, spilling to system RAM'',
                    Note ''Performance will be significantly reduced''])
            else
              Inr (RunModeGpu, minVram, sysVram,
                   notes @
                   [Note ''Insufficient VRAM and system RAM'',
                    Sprintf ''Need %.1f GB VRAM or %.1f GB system RAM''
                      [ArgFloat minVram, ArgFloat (MinRAMGB model)]]))
        else
          Inr (cpuPath model system (notes @ [Note ''GPU detected but VRAM unknown'']))
      else Inr (cpuPath model system notes))"

subsection \<open>Package pole: fit level, speed and scores\<close>

definition scoreFit :: "float64 \<Rightarrow> float64 \<Rightarrow> float64 \<Rightarrow> RunMode \<Rightarrow> FitLevel" where
  "scoreFit memRequired memAvailable recommended runMode =
     (if fgt memRequired memAvailable then FitTooTight
      else case runMode of
        RunModeGpu \<Rightarrow>
          if fle recommended memAvailable then FitPerfect
          else if fge memAvailable (fmul memRequired (Fin 1.2)) then FitGood
          else FitMarginal
      | RunModeMoeOffload \<Rightarrow>
          if fge memAvailable (fmul memRequired (Fin 1.2)) then FitGood else FitMarginal
      | RunModeCpuOffload \<Rightarrow>
          if fge memAvailable (fmul memRequired (Fin 1.2)) then FitGood else FitMarginal
      | RunModeCpuOnly \<Rightarrow> FitMarginal)"

text \<open>\<open>arm64\<close> is the build constant \<^verbatim>\<open>runtime.GOARCH == "arm64"\<close>.\<close>

definition estimateTPS ::
  "stdlib \<Rightarrow> bool \<Rightarrow> LlmModel \<Rightarrow> string \<Rightarrow> SystemSpecs \<Rightarrow> RunMode \<Rightarrow> error + float64" where
  "estimateTPS lib arm64 model quant system runMode =
     (let k = (case Backend system of
                 BackendCuda \<Rightarrow> Fin 220 | BackendMetal \<Rightarrow> Fin 160 | BackendRocm \<Rightarrow> Fin 180
               | BackendVulkan \<Rightarrow> Fin 150 | BackendSycl \<Rightarrow> Fin 100 | BackendCpuArm \<Rightarrow> Fin 90
               | BackendCpuX86 \<Rightarrow> Fin 70)
      in bindE (ParamsB lib model) (\<lambda>params.
         let params = (if flt params (Fin 0.1) then Fin 0.1 else params)
         in bindE (fdiv k params) (\<lambda>q.
            let base = fmul q (QuantSpeedMultiplier quant);
                base = (if TotalCPUCores system \<ge> 8 then fmul base (Fin 1.1) else base);
                base = (case runMode of
                          RunModeMoeOffload \<Rightarrow> fmul base (Fin 0.8)
                        | RunModeCpuOffload \<Rightarrow> fmul base (Fin 0.5)
                        | RunModeCpuOnly \<Rightarrow> fmul base (Fin 0.3)
                        | RunModeGpu \<Rightarrow> base)
            in bindE (if runMode = RunModeCpuOnly then
                        let cpuK = (if arm64 then Fin 90 else Fin 70.0)
                        in bindE (fdiv cpuK params) (\<lambda>q2.
                           let base = fmul q2 (QuantSpeedMultiplier quant)
                           in Inr (if TotalCPUCores system \<ge> 8 then fmul base (Fin 1.1) else base))
                      else Inr base) (\<lambda>base.
               Inr (if flt base (Fin 0.1) then Fin 0.1 else base)))))"

definition qualityScore :: "stdlib \<Rightarrow> LlmModel \<Rightarrow> string \<Rightarrow> UseCase \<Rightarrow> error + float64" where
  "qualityScore lib model quant useCase =
     bindE (ParamsB lib model) (\<lambda>params.
       let base = (if flt params (Fin 1) then Fin 30
                   else if flt params (Fin 3) then Fin 45
                   else if flt params (Fin 7) then Fin 60
                   else if flt params (Fin 10) then Fin 75
                   else if flt params (Fin 20) then Fin 82
                   else if flt params (Fin 40) then Fin 89
                   else Fin 95);
           nameLower = ToLower lib (Name model);
           familyBump = (if Contains nameLower ''qwen'' then Fin 2
                         else if Contains nameLower ''deepseek'' then Fin 3
                         else if Contains nameLower ''llama'' then Fin 2
                         else if Contains nameLower ''mistral'' \<or> Contains nameLower ''mixtral''
                           then Fin 1
                         else if Contains nameLower ''gemma'' then Fin 1
                         else if Contains nameLower ''starcoder'' then Fin 1
                         else Fin 0.0);
           qPenalty = QuantQualityPenalty quant;
           taskBump = (case useCase of
                         UseCaseCoding \<Rightarrow>
                           if Contains nameLower ''code'' \<or> Contains nameLower ''starcoder''
                              \<or> Contains nameLower ''wizard'' then Fin 6 else Fin 0.0
                       | UseCaseReasoning \<Rightarrow> if fge params (Fin 13) then Fin 5 else Fin 0.0
                       | UseCaseMultimodal \<Rightarrow>
                           if Contains nameLower ''vision''
                              \<or> Contains (ToLower lib (LlmModel.UseCase model)) ''vision''
                           then Fin 6 else Fin 0.0
                       | _ \<Rightarrow> Fin 0.0);
           v = fadd (fadd (fadd base familyBump) qPenalty) taskBump;
           v = (if flt v (Fin 0) then Fin 0 else v);
           v = (if fgt v (Fin 100) then Fin 100 else v)
       in Inr v)"

definition speedScore :: "float64 \<Rightarrow> UseCase \<Rightarrow> float64" where
  "speedScore tps useCase =
     (let target = (if useCase = UseCaseReasoning then Fin 25
                    else if useCase = UseCaseEmbedding then Fin 200 else Fin 40.0);
          v = fmul (fquot tps target) (Fin 100);
          v = (if flt v (Fin 0) then Fin 0 else v);
          v = (if fgt v (Fin 100) then Fin 100 else v)
      in v)"

definition fitScore :: "float64 \<Rightarrow> float64 \<Rightarrow> error + float64" where
  "fitScore required available =
     (if fle available (Fin 0) \<or> fgt required available then Inr (Fin 0)
      else
        bindE (fdiv required available) (\<lambda>ratio.
          if fle ratio (Fin 0.5) then Inr (fadd (Fin 60) (fmul (fquot ratio (Fin 0.5)) (Fin 40)))
          else if fle ratio (Fin 0.8) then Inr (Fin 100)
          else if fle ratio (Fin 0.9) then Inr (Fin 70)
          else Inr (Fin 50)))"

definition contextScore :: "LlmModel \<Rightarrow> UseCase \<Rightarrow> float64" where
  "contextScore model useCase =
     (let target = (case useCase of
                      UseCaseCoding \<Rightarrow> 8192 | UseCaseReasoning \<Rightarrow> 8192
                    | UseCaseEmbedding \<Rightarrow> 512 | _ \<Rightarrow> (4096 :: 32 word))
      in if ContextLength model \<ge> target then Fin 100
         else if ContextLength model \<ge> target div 2 then Fin 70
         else Fin 30)"

definition computeScores ::
  "stdlib \<Rightarrow> LlmModel \<Rightarrow> string \<Rightarrow> UseCase \<Rightarrow> float64 \<Rightarrow> float64 \<Rightarrow> float64
     \<Rightarrow> error + ScoreComponents" where
  "computeScores lib model quant useCase estimatedTPS memRequired memAvailable =
     bindE (qualityScore lib model quant useCase) (\<lambda>q.
     bindE (fitScore memRequired memAvailable) (\<lambda>f.
       Inr \<lparr>Quality = q, Speed = speedScore estimatedTPS useCase, Fit = f,
            Context = contextScore model useCase\<rparr>))"

definition weightedScore :: "ScoreComponents \<Rightarrow> UseCase \<Rightarrow> float64" where
  "weightedScore sc useCase =
     (case (case useCase of
              UseCaseGeneral \<Rightarrow> (Fin 0.45, Fin 0.30, Fin 0.15, Fin 0.10)
            | UseCaseCoding \<Rightarrow> (Fin 0.50, Fin 0.20, Fin 0.15, Fin 0.15)
            | UseCaseReasoning \<Rightarrow> (Fin 0.55, Fin 0.15, Fin 0.15, Fin 0.15)
            | UseCaseChat \<Rightarrow> (Fin 0.40, Fin 0.35, Fin 0.15, Fin 0.10)
            | UseCaseMultimodal \<Rightarrow> (Fin 0.50, Fin 0.20, Fin 0.15, Fin 0.15)
            | UseCaseEmbedding \<Rightarrow> (Fin 0.30, Fin 0.40, Fin 0.20, Fin 0.10)) of
        (wq, ws, wf', wc) \<Rightarrow>
          let raw = fadd (fadd (fadd (fmul (Quality sc) wq) (fmul (Speed sc) ws))
                            (fmul (Fit sc) wf')) (fmul (Context sc) wc)
          in fquot (Round (fmul raw (Fin 10))) (Fin 10))"

subsection \<open>Package pole: Analyze\<close>

definition Analyze :: "stdlib \<Rightarrow> bool \<Rightarrow> LlmModel \<Rightarrow> SystemSpecs \<Rightarrow> error + ModelFit" where
  "Analyze lib arm64 model system =
     bindE (if MinVRAMGB model \<noteq> None then deref (MinVRAMGB model)
            else Inr (MinRAMGB model)) (\<lambda>minVram.
     let useCase = UseCaseFromModel lib model
     in bindE (Analyze_select model system minVram []) (\<lambda>(runMode, memRequired, memAvailable, notes).
     let fitLevel = scoreFit memRequired memAvailable (RecommendedRAMGB model) runMode
     in bindE (if fgt memAvailable (Fin 0)
               then bindE (fdiv memRequired memAvailable) (\<lambda>q. Inr (fmul q (Fin 100)))
               else Inr MaxFloat64) (\<lambda>utilPct.
     let notes = (if runMode = RunModeCpuOnly
                  then notes @ [Note ''No GPU -- inference will be slow''] else notes);
         notes = (if (runMode = RunModeCpuOffload \<or> runMode = RunModeCpuOnly)
                     \<and> TotalCPUCores system < 4
                  then notes @ [Note ''Low CPU core count may bottleneck inference'']
                  else notes)
     in bindE (if runMode = RunModeMoeOffload then MoeOffloadedRAMGB model
               else Inr None) (\<lambda>moeOffloaded.
     bindE (BestQuantForBudget lib model memAvailable (ContextLength model)) (\<lambda>(bestQuant, mem).
     let notes = (if bestQuant \<noteq> Quantization model
                  then notes @ [Note (''Best quantization for hardware: '' @ bestQuant
                                       @ '' (model default: '' @ Quantization model @ '')'')]
                  else notes)
     in bindE (estimateTPS lib arm64 model bestQuant system runMode) (\<lambda>estimatedTPS.
     bindE (computeScores lib model bestQuant useCase estimatedTPS memRequired memAvailable) (\<lambda>sc.
     let score = weightedScore sc useCase;
         notes = (if fgt estimatedTPS (Fin 0)
                  then notes @ [Sprintf ''Estimated speed: %.1f tok/s'' [ArgFloat estimatedTPS]]
                  else notes)
     in Inr \<lparr>Model = model, FitLevel = fitLevel, RunMode = runMode,
             MemoryRequiredGB = memRequired, MemoryAvailableGB = memAvailable,
             UtilizationPct = utilPct, Notes = notes, MoeOffloadedGB = moeOffloaded,
             Score = score, ScoreComponents = sc, EstimatedTPS = estimatedTPS,
             BestQuant = bestQuant, UseCase = useCase\<rparr>)))))))"

text \<open>\<^verbatim>\<open>AnalyzeAll\<close>: the loop over the models, stopping at the first panic.\<close>

fun AnalyzeAll :: "stdlib \<Rightarrow> bool \<Rightarrow> LlmModel list \<Rightarrow> SystemSpecs \<Rightarrow> error + ModelFit list" where
  "AnalyzeAll lib arm64 [] system = Inr []"
| "AnalyzeAll lib arm64 (m # ms) system =
     bindE (Analyze lib arm64 m system) (\<lambda>f.
     bindE (AnalyzeAll lib arm64 ms system) (\<lambda>fs. Inr (f # fs)))"

subsection \<open>Package pole: ranking and filtering\<close>

text \<open>
  \<^verbatim>\<open>sort.Slice\<close> of the standard library, as the insertion sort it runs on a short
  slice: each element in turn moves left while it is less than its left neighbour. The
  accumulator holds the sorted prefix, last element first. Longer slices are sorted by
  the library's quicksort, which promises an ordered permutation only for a comparator
  that is a strict weak order; they are modelled by the same function.
\<close>

fun insertionSort_insert :: "('a \<Rightarrow> 'a \<Rightarrow> bool) \<Rightarrow> 'a \<Rightarrow> 'a list \<Rightarrow> 'a list" where
  "insertionSort_insert lessf x [] = [x]"
| "insertionSort_insert lessf x (y # ys) =
     (if lessf x y then y # insertionSort_insert lessf x ys else x # y # ys)"

fun insertionSort :: "('a \<Rightarrow> 'a \<Rightarrow> bool) \<Rightarrow> 'a list \<Rightarrow> 'a list \<Rightarrow> 'a list" where
  "insertionSort lessf acc [] = acc"
| "insertionSort lessf acc (x # xs) = insertionSort lessf (insertionSort_insert lessf x acc) xs"

definition sort_Slice :: "('a \<Rightarrow> 'a \<Rightarrow> bool) \<Rightarrow> 'a list \<Rightarrow> 'a list" where
  "sort_Slice lessf xs = rev (insertionSort lessf [] xs)"

text \<open>The comparator passed to \<^verbatim>\<open>sort.Slice\<close> by \<^verbatim>\<open>RankModelsByFit\<close>.\<close>

definition RankModelsByFit_less :: "ModelFit \<Rightarrow> ModelFit \<Rightarrow> bool" where
  "RankModelsByFit_less a b =
     (let ar = (FitLevel a \<noteq> FitTooTight); br = (FitLevel b \<noteq> FitTooTight)
      in if ar \<and> \<not> br then True
         else if \<not> ar \<and> br then False
         else fgt (Score a) (Score b))"

definition RankModelsByFit :: "ModelFit list \<Rightarrow> ModelFit list" where
  "RankModelsByFit fits = sort_Slice RankModelsByFit_less fits"

definition FilterPerfectOnly :: "ModelFit list \<Rightarrow> ModelFit list" where
  "FilterPerfectOnly fits = filter (\<lambda>f. FitLevel f = FitPerfect) fits"

definition useCaseFromString :: "stdlib \<Rightarrow> string \<Rightarrow> UseCase option" where
  "useCaseFromString lib s =
     (let l = ToLower lib s
      in if l = ''general'' then Some UseCaseGeneral
         else if l = ''coding'' \<or> l = ''code'' then Some UseCaseCoding
         else if l = ''reasoning'' \<or> l = ''reason'' then Some UseCaseReasoning
         else if l = ''chat'' then Some UseCaseChat
         else if l = ''multimodal'' \<or> l = ''vision'' then Some UseCaseMultimodal
         else if l = ''embedding'' \<or> l = ''embed'' then Some UseCaseEmbedding
         else None)"

definition FilterByUseCase :: "stdlib \<Rightarrow> ModelFit list \<Rightarrow> string \<Rightarrow> ModelFit list" where
  "FilterByUseCase lib fits useCase =
     (case useCaseFromString lib useCase of
        None \<Rightarrow> fits
      | Some uc \<Rightarrow> filter (\<lambda>f. ModelFit.UseCase f = uc) fits)"

subsection \<open>Derived values and the fixtures of the package tests\<close>

text \<open>The number \<open>ParamsB\<close> returns (it always returns one, see \<open>ParamsB_Inr\<close>).\<close>

definition params_of :: "stdlib \<Rightarrow> LlmModel \<Rightarrow> float64" where
  "params_of lib m = (case ParamsB lib m of Inl e \<Rightarrow> Fin 0 | Inr p \<Rightarrow> p)"

text \<open>The number \<open>EstimateMemoryGB\<close> returns (see \<open>EstimateMemoryGB_estimate_of\<close>).\<close>

definition estimate_of :: "stdlib \<Rightarrow> LlmModel \<Rightarrow> string \<Rightarrow> 32 word \<Rightarrow> float64" where
  "estimate_of lib m quant ctx =
     fadd (fadd (fmul (params_of lib m) (QuantBPP quant))
                (fmul (fmul (Fin 0.000008) (params_of lib m)) (Fin (real (unat ctx)))))
          (Fin 0.5)"

text \<open>\<^verbatim>\<open>model7B()\<close>, \<^verbatim>\<open>specNoGPU(ramGB, cores)\<close> and \<^verbatim>\<open>specWithGPU(vramGB, ramGB, unified)\<close>
  of the tests of package pole; fields a Go literal leaves out have their zero value.\<close>

definition model7B :: LlmModel where
  "model7B =
     \<lparr>Name = ''test-7b'', Provider = ''Test'', ParameterCount = ''7B'', ParametersRaw = None,
      MinRAMGB = Fin 8.0, RecommendedRAMGB = Fin 12.0, MinVRAMGB = Some (Fin 6.0),
      Quantization = ''Q4_K_M'', ContextLength = 4096, UseCase = ''general'', IsMoE = False,
      NumExperts = None, ActiveExperts = None, ActiveParameters = None\<rparr>"

definition specNoGPU :: "float64 \<Rightarrow> int \<Rightarrow> SystemSpecs" where
  "specNoGPU ramGB cores =
     \<lparr>TotalRAMGB = ramGB, AvailableRAMGB = fmul ramGB (Fin 0.8), TotalCPUCores = cores,
      CPUName = ''Test CPU'', HasGPU = False, GpuVRAMGB = None, GpuName = None, GpuCount = 0,
      UnifiedMemory = False, Backend = BackendCpuX86\<rparr>"

definition specWithGPU :: "float64 \<Rightarrow> float64 \<Rightarrow> bool \<Rightarrow> SystemSpecs" where
  "specWithGPU vramGB ramGB unified =
     \<lparr>TotalRAMGB = ramGB, AvailableRAMGB = fmul ramGB (Fin 0.8), TotalCPUCores = 8,
      CPUName = ''Test CPU'', HasGPU = True, GpuVRAMGB = Some vramGB, GpuName = None,
      GpuCount = 0, UnifiedMemory = unified, Backend = BackendCuda\<rparr>"

text \<open>The literal \<^verbatim>\<open>&ModelFit{Model: model7B(), FitLevel: l, Score: sc, UseCase: uc}\<close>.\<close>

definition fitOf :: "FitLevel \<Rightarrow> float64 \<Rightarrow> UseCase \<Rightarrow> ModelFit" where
  "fitOf l sc uc =
     \<lparr>Model = model7B, FitLevel = l, RunMode = RunModeGpu, MemoryRequiredGB = Fin 0,
      MemoryAvailableGB = Fin 0, UtilizationPct = Fin 0, Notes = [], MoeOffloadedGB = None,
      Score = sc,
      ScoreComponents = \<lparr>Quality = Fin 0, Speed = Fin 0, Fit = Fin 0, Context = Fin 0\<rparr>,
      EstimatedTPS = Fin 0, BestQuant = [], UseCase = uc\<rparr>"

definition rankInput :: "ModelFit list" where
  "rankInput =
     [fitOf FitTooTight (Fin 50) UseCaseGeneral, fitOf FitGood (Fin 70) UseCaseGeneral,
      fitOf FitPerfect (Fin 90) UseCaseGeneral, fitOf FitMarginal (Fin 60) UseCaseGeneral]"

text \<open>Three results of one partition, the middle one with the score NaN.\<close>

definition rankInputNaN :: "ModelFit list" where
  "rankInputNaN =
     [fitOf FitGood (Fin 1) UseCaseGeneral, fitOf FitGood NaN UseCaseGeneral,
      fitOf FitGood (Fin 2) UseCaseGeneral]"

definition useCaseInput :: "ModelFit list" where
  "useCaseInput =
     [fitOf FitMarginal (Fin 70) UseCaseCoding, fitOf FitMarginal (Fin 60) UseCaseGeneral]"

text \<open>A degenerate record: zero parameters and no optional field.\<close>

definition model0 :: LlmModel where
  "model0 = model7B\<lparr>ParametersRaw := Some 0, MinVRAMGB := None\<rparr>"

text \<open>The results of \<open>Analyze\<close> on the fixtures, on a build that is not arm64 (they
  are computed in \<open>Analyze_model7B_cpu\<close>, \<open>Analyze_model7B_unified\<close> and
  \<open>Analyze_model0_no_memory\<close>).\<close>

definition fitCpuOnly :: ModelFit where
  "fitCpuOnly =
     \<lparr>Model = model7B, FitLevel = FitMarginal, RunMode = RunModeCpuOnly,
      MemoryRequiredGB = Fin 8, MemoryAvailableGB = Fin 25.6, UtilizationPct = Fin 31.25,
      Notes = [Note ''CPU-only: model loaded into system RAM'',
               Note ''No GPU -- inference will be slow'',
               Note ''Best quantization for hardware: Q8_0 (model default: Q4_K_M)'',
               Sprintf ''Estimated speed: %.1f tok/s'' [ArgFloat (Fin 8.8)]],
      MoeOffloadedGB = None, Score = Fin 63.1,
      ScoreComponents = \<lparr>Quality = Fin 75, Speed = Fin 22, Fit = Fin 85, Context = Fin 100\<rparr>,
      EstimatedTPS = Fin 8.8, BestQuant = ''Q8_0'', UseCase = UseCaseGeneral\<rparr>"

definition fitUnified :: ModelFit where
  "fitUnified =
     \<lparr>Model = model7B, FitLevel = FitPerfect, RunMode = RunModeGpu,
      MemoryRequiredGB = Fin 6, MemoryAvailableGB = Fin 16, UtilizationPct = Fin 37.5,
      Notes = [Note ''Unified memory: GPU and CPU share the same pool'',
               Note ''Best quantization for hardware: Q8_0 (model default: Q4_K_M)'',
               Sprintf ''Estimated speed: %.1f tok/s'' [ArgFloat (Fin (968 / 35))]],
      MoeOffloadedGB = None, Score = Fin 78,
      ScoreComponents = \<lparr>Quality = Fin 75, Speed = Fin (484 / 7), Fit = Fin 90, Context = Fin 100\<rparr>,
      EstimatedTPS = Fin (968 / 35), BestQuant = ''Q8_0'', UseCase = UseCaseGeneral\<rparr>"

definition fitNoMemory :: ModelFit where
  "fitNoMemory =
     \<lparr>Model = model0, FitLevel = FitTooTight, RunMode = RunModeCpuOnly,
      MemoryRequiredGB = Fin 8, MemoryAvailableGB = Fin 0, UtilizationPct = MaxFloat64,
      Notes = [Note ''CPU-only: model loaded into system RAM'',
               Note ''No GPU -- inference will be slow'',
               Note ''Low CPU core count may bottleneck inference'',
               Sprintf ''Estimated speed: %.1f tok/s'' [ArgFloat (Fin 805)]],
      MoeOffloadedGB = None, Score = Fin 51.3,
      ScoreComponents = \<lparr>Quality = Fin 25, Speed = Fin 100, Fit = Fin 0, Context = Fin 100\<rparr>,
      EstimatedTPS = Fin 805, BestQuant = ''Q4_K_M'', UseCase = UseCaseGeneral\<rparr>"

subsection \<open>The specification's wording of two operations\<close>

text \<open>
  \<open>BestQuantForBudget\<close> as the specification words it: the first quantization of the
  hierarchy whose estimate at the context fits the budget; if none fits, the first one
  that fits at the context halved, but not below 1024, with the estimate at that context;
  if still none fits, the model's declared default quantization with its estimate at the
  full context.
\<close>

definition BestQuantForBudget_spec ::
  "stdlib \<Rightarrow> LlmModel \<Rightarrow> float64 \<Rightarrow> 32 word \<Rightarrow> string \<times> float64" where
  "BestQuantForBudget_spec lib m budgetGB ctx =
     (case find (\<lambda>q. fle (estimate_of lib m q ctx) budgetGB) QuantHierarchy of
        Some q \<Rightarrow> (q, estimate_of lib m q ctx)
      | None \<Rightarrow>
          let halved = max (ctx div 2) 1024
          in (case find (\<lambda>q. fle (estimate_of lib m q halved) budgetGB) QuantHierarchy of
                Some q \<Rightarrow> (q, estimate_of lib m q halved)
              | None \<Rightarrow> (Quantization m, estimate_of lib m (Quantization m) ctx)))"

text \<open>
  The speed estimate as the specification words it: the backend constant (the CPU
  constant of the build architecture in CPU-only mode) over the parameter count clamped
  to 0.1, times the quantization's speed multiplier, times 1.1 from eight cores on, times
  the penalty of the run mode, and never below 0.1.
\<close>

definition fmax :: "float64 \<Rightarrow> float64 \<Rightarrow> float64" where
  "fmax a b = (if flt a b then b else a)"

definition estimateTPS_spec ::
  "stdlib \<Rightarrow> bool \<Rightarrow> LlmModel \<Rightarrow> string \<Rightarrow> SystemSpecs \<Rightarrow> RunMode \<Rightarrow> float64" where
  "estimateTPS_spec lib arm64 model quant system runMode =
     (let k = (if runMode = RunModeCpuOnly then (if arm64 then Fin 90 else Fin 70)
               else (case Backend system of
                       BackendCuda \<Rightarrow> Fin 220 | BackendMetal \<Rightarrow> Fin 160 | BackendRocm \<Rightarrow> Fin 180
                     | BackendVulkan \<Rightarrow> Fin 150 | BackendSycl \<Rightarrow> Fin 100 | BackendCpuArm \<Rightarrow> Fin 90
                     | BackendCpuX86 \<Rightarrow> Fin 70));
          base = fmul (fquot k (fmax (params_of lib model) (Fin 0.1))) (QuantSpeedMultiplier quant);
          base = (if TotalCPUCores system \<ge> 8 then fmul base (Fin 1.1) else base);
          base = fmul base (case runMode of
                           RunModeGpu \<Rightarrow> Fin 1 | RunModeMoeOffload \<Rightarrow> Fin 0.8
                         | RunModeCpuOffload \<Rightarrow> Fin 0.5 | RunModeCpuOnly \<Rightarrow> Fin 0.3)
      in fmax base (Fin 0.1))"

section \<open>Properties\<close>

subsection \<open>The error monad\<close>

lemma bindE_Inr [simp]: "bindE (Inr x) f = f x"
  by (simp add: bindE_def)

lemma bindE_Inl [simp]: "bindE (Inl e) f = Inl e"
  by (simp add: bindE_def)

lemma deref_Some [simp]: "deref (Some v) = Inr v"
  by (simp add: deref_def)

lemma deref_None [simp]: "deref None = Inl NilDeref"
  by (simp add: deref_def)

subsection \<open>Comparisons of float64\<close>

lemma fgt_Fin [simp]: "fgt (Fin x) (Fin y) = (y < x)"
  by (simp add: fgt_def)

lemma fge_Fin [simp]: "fge (Fin x) (Fin y) = (y \<le> x)"
  by (simp add: fge_def)

lemma flt_NaN [simp]: "\<not> flt a NaN"
  by (cases a) simp_all

lemma fle_NaN [simp]: "\<not> fle a NaN"
  by (cases a) simp_all

lemma flt_irrefl [simp]: "\<not> flt a a"
  by (cases a) simp_all

lemma flt_asym: "flt a b \<Longrightarrow> \<not> flt b a"
  by (cases a; cases b) simp_all

text \<open>Away from NaN the order is total: not being less is transitive.\<close>

lemma flt_ntrans:
  "a \<noteq> NaN \<Longrightarrow> b \<noteq> NaN \<Longrightarrow> c \<noteq> NaN \<Longrightarrow> \<not> flt a b \<Longrightarrow> \<not> flt b c \<Longrightarrow> \<not> flt a c"
  by (cases a; cases b; cases c) simp_all

lemma fle_iff_not_flt: "a \<noteq> NaN \<Longrightarrow> b \<noteq> NaN \<Longrightarrow> fle a b = (\<not> flt b a)"
  by (cases a; cases b) auto

text \<open>A number that compares greater than 0 is not 0.\<close>

lemma fgt_zero_neq: "fgt a (Fin 0) \<Longrightarrow> a \<noteq> Fin 0"
  by (auto simp: fgt_def)

lemma fdiv_Inr: "y \<noteq> Fin 0 \<Longrightarrow> fdiv x y = Inr (fquot x y)"
  by (simp add: fdiv_def)

subsection \<open>No function of the fit engine panics\<close>

text \<open>After \<^verbatim>\<open>strings.HasSuffix(s, "B")\<close> the slice \<^verbatim>\<open>s[:len(s)-1]\<close> is in range.\<close>

lemma slice_to_suffix: "HasSuffix s [c] \<Longrightarrow> slice_to s (int (length s) - 1) = Inr (butlast s)"
  by (cases s rule: rev_cases) (auto simp: HasSuffix_def slice_to_def butlast_conv_take)

lemma ParamsB_Inr: "ParamsB lib m = Inr (params_of lib m)"
  by (cases "ParametersRaw m") (simp_all add: params_of_def ParamsB_def Let_def slice_to_suffix)

lemma EstimateMemoryGB_estimate_of:
  "EstimateMemoryGB lib m q ctx = Inr (estimate_of lib m q ctx)"
  by (simp add: EstimateMemoryGB_def estimate_of_def ParamsB_Inr Let_def)

lemma MoeActiveVRAMGB_total: "\<exists>r. MoeActiveVRAMGB m = Inr r"
  by (cases "ActiveParameters m") (simp_all add: MoeActiveVRAMGB_def Let_def)

lemma MoeOffloadedRAMGB_total: "\<exists>r. MoeOffloadedRAMGB m = Inr r"
  by (cases "ActiveParameters m"; cases "ParametersRaw m")
     (simp_all add: MoeOffloadedRAMGB_def Let_def)

lemma moeOffloadPath_total: "\<exists>r. moeOffloadPath m s sv tv ns = Inr r"
proof -
  obtain a where a: "MoeActiveVRAMGB m = Inr a"
    using MoeActiveVRAMGB_total by blast
  obtain b where b: "MoeOffloadedRAMGB m = Inr b"
    using MoeOffloadedRAMGB_total by blast
  show ?thesis
    by (cases a; cases b; cases "ActiveExperts m"; cases "NumExperts m")
       (simp_all add: moeOffloadPath_def a b)
qed

lemma Analyze_select_total: "\<exists>r. Analyze_select m s mv ns = Inr r"
  using moeOffloadPath_total [of m s _ mv ns]
  by (cases "GpuVRAMGB s"; cases "ActiveExperts m"; cases "NumExperts m")
     (auto simp add: Analyze_select_def Let_def cpuPath_def)

lemma BestQuantForBudget_scan_total: "\<exists>r. BestQuantForBudget_scan lib m b ctx qs = Inr r"
  by (induction qs) (simp_all add: EstimateMemoryGB_estimate_of)

lemma BestQuantForBudget_total: "\<exists>q mem. BestQuantForBudget lib m b ctx = Inr (q, mem)"
proof -
  obtain r1 where r1: "BestQuantForBudget_scan lib m b ctx QuantHierarchy = Inr r1"
    using BestQuantForBudget_scan_total by blast
  obtain r2 where r2: "BestQuantForBudget_scan lib m b (ctx div 2) QuantHierarchy = Inr r2"
    using BestQuantForBudget_scan_total by blast
  show ?thesis
    by (cases r1; cases r2)
       (auto simp: BestQuantForBudget_def r1 r2 Let_def EstimateMemoryGB_estimate_of)
qed

text \<open>The divisor of \<^verbatim>\<open>k / params\<close> is not 0 after the clamp: 0 is less than 0.1.\<close>

lemma clamped_params_neq: "(if flt p (Fin (1 / 10)) then Fin (1 / 10) else p) \<noteq> Fin 0"
  by (cases p) auto

lemma estimateTPS_total: "\<exists>t. estimateTPS lib a m q s rm = Inr t"
  by (simp add: estimateTPS_def ParamsB_Inr Let_def fdiv_Inr [OF clamped_params_neq])

lemma qualityScore_total: "\<exists>v. qualityScore lib m q uc = Inr v"
  by (simp add: qualityScore_def ParamsB_Inr Let_def)

lemma fitScore_total: "\<exists>v. fitScore rq av = Inr v"
proof (cases "fle av (Fin 0) \<or> fgt rq av")
  case True
  then show ?thesis by (simp add: fitScore_def)
next
  case False
  define ratio where "ratio = fquot rq av"
  have "av \<noteq> Fin 0" using False by auto
  then have "fdiv rq av = Inr ratio"
    by (simp add: fdiv_def ratio_def)
  then have "fitScore rq av =
      (if fle ratio (Fin 0.5) then Inr (fadd (Fin 60) (fmul (fquot ratio (Fin 0.5)) (Fin 40)))
       else if fle ratio (Fin 0.8) then Inr (Fin 100)
       else if fle ratio (Fin 0.9) then Inr (Fin 70)
       else Inr (Fin 50))"
    using False unfolding fitScore_def by (simp only: if_False bindE_Inr)
  then show ?thesis
    by (cases "fle ratio (Fin 0.5)"; cases "fle ratio (Fin 0.8)"; cases "fle ratio (Fin 0.9)")
       simp_all
qed

lemma computeScores_total: "\<exists>sc. computeScores lib m q uc t rq av = Inr sc"
proof -
  obtain v where v: "qualityScore lib m q uc = Inr v"
    using qualityScore_total by blast
  obtain w where w: "fitScore rq av = Inr w"
    using fitScore_total by blast
  show ?thesis by (simp add: computeScores_def v w)
qed

text \<open>What \<open>Analyze\<close> returns, field by field.\<close>

lemma Analyze_Inr:
  "\<exists>mv rm rq av ns mo bq mem t sc notes.
     (if MinVRAMGB m \<noteq> None then deref (MinVRAMGB m) else Inr (MinRAMGB m)) = Inr mv
     \<and> Analyze_select m s mv [] = Inr (rm, rq, av, ns)
     \<and> BestQuantForBudget lib m av (ContextLength m) = Inr (bq, mem)
     \<and> estimateTPS lib a m bq s rm = Inr t
     \<and> computeScores lib m bq (UseCaseFromModel lib m) t rq av = Inr sc
     \<and> Analyze lib a m s =
         Inr \<lparr>Model = m, FitLevel = scoreFit rq av (RecommendedRAMGB m) rm, RunMode = rm,
              MemoryRequiredGB = rq, MemoryAvailableGB = av,
              UtilizationPct =
                (if fgt av (Fin 0) then fmul (fquot rq av) (Fin 100) else MaxFloat64),
              Notes = notes, MoeOffloadedGB = mo,
              Score = weightedScore sc (UseCaseFromModel lib m), ScoreComponents = sc,
              EstimatedTPS = t, BestQuant = bq, UseCase = UseCaseFromModel lib m\<rparr>"
proof -
  obtain mv where
    mv: "(if MinVRAMGB m \<noteq> None then deref (MinVRAMGB m) else Inr (MinRAMGB m)) = Inr mv"
    by (cases "MinVRAMGB m") auto
  obtain rm rq av ns where sel: "Analyze_select m s mv [] = Inr (rm, rq, av, ns)"
    using Analyze_select_total by (metis prod_cases4)
  have u: "(if fgt av (Fin 0) then bindE (fdiv rq av) (\<lambda>q. Inr (fmul q (Fin 100)))
            else Inr MaxFloat64)
             = Inr (if fgt av (Fin 0) then fmul (fquot rq av) (Fin 100) else MaxFloat64)"
    by (simp add: fdiv_Inr [OF fgt_zero_neq])
  have "\<exists>mo. (if rm = RunModeMoeOffload then MoeOffloadedRAMGB m else Inr None) = Inr mo"
    using MoeOffloadedRAMGB_total [of m] by simp
  then obtain mo where
    mo: "(if rm = RunModeMoeOffload then MoeOffloadedRAMGB m else Inr None) = Inr mo"
    by blast
  obtain bq mem where bq: "BestQuantForBudget lib m av (ContextLength m) = Inr (bq, mem)"
    using BestQuantForBudget_total by blast
  obtain t where t: "estimateTPS lib a m bq s rm = Inr t"
    using estimateTPS_total by blast
  obtain sc where sc: "computeScores lib m bq (UseCaseFromModel lib m) t rq av = Inr sc"
    using computeScores_total by blast
  have "\<exists>notes. Analyze lib a m s =
         Inr \<lparr>Model = m, FitLevel = scoreFit rq av (RecommendedRAMGB m) rm, RunMode = rm,
              MemoryRequiredGB = rq, MemoryAvailableGB = av,
              UtilizationPct =
                (if fgt av (Fin 0) then fmul (fquot rq av) (Fin 100) else MaxFloat64),
              Notes = notes, MoeOffloadedGB = mo,
              Score = weightedScore sc (UseCaseFromModel lib m), ScoreComponents = sc,
              EstimatedTPS = t, BestQuant = bq, UseCase = UseCaseFromModel lib m\<rparr>"
    unfolding Analyze_def Let_def
    by (simp only: mv sel u mo bq t sc bindE_Inr prod.case) blast
  with mv sel bq t sc show ?thesis by blast
qed

lemma Analyze_fields:
  assumes "Analyze lib a m s = Inr r"
  shows "\<exists>mv ns.
           (if MinVRAMGB m \<noteq> None then deref (MinVRAMGB m) else Inr (MinRAMGB m)) = Inr mv
           \<and> Analyze_select m s mv [] = Inr (RunMode r, MemoryRequiredGB r, MemoryAvailableGB r, ns)
           \<and> FitLevel r = scoreFit (MemoryRequiredGB r) (MemoryAvailableGB r)
                             (RecommendedRAMGB m) (RunMode r)
           \<and> UtilizationPct r =
               (if fgt (MemoryAvailableGB r) (Fin 0)
                then fmul (fquot (MemoryRequiredGB r) (MemoryAvailableGB r)) (Fin 100)
                else MaxFloat64)"
proof -
  obtain mv rm rq av ns r' where
    mv: "(if MinVRAMGB m \<noteq> None then deref (MinVRAMGB m) else Inr (MinRAMGB m)) = Inr mv" and
    sel: "Analyze_select m s mv [] = Inr (rm, rq, av, ns)" and
    r': "Analyze lib a m s = Inr r'" and
    f: "RunMode r' = rm" "MemoryRequiredGB r' = rq" "MemoryAvailableGB r' = av"
       "FitLevel r' = scoreFit rq av (RecommendedRAMGB m) rm"
       "UtilizationPct r' =
          (if fgt av (Fin 0) then fmul (fquot rq av) (Fin 100) else MaxFloat64)"
    using Analyze_Inr [of m s lib a] by (elim exE conjE) simp
  have "r' = r" using assms r' by simp
  with mv sel f show ?thesis by blast
qed

subsection \<open>Parameter count\<close>

lemmas string_defs =
  ToUpper_def upper_of_def ToLower_def lower_of_def TrimSpace_def is_space_def is_ascii_def
  HasSuffix_def

lemmas ParseFloat_defs =
  stdlib_ascii_def ParseFloat_decimal_def read_special_def read_sign_def read_exp_def
  is_digit_def digits_val_def Let_def

lemma ParamsB_raw:
  "ParametersRaw m = Some raw
     \<Longrightarrow> ParamsB lib m = Inr (fquot (Fin (real (unat raw))) (Fin 1000000000))"
  by (simp add: ParamsB_def)

lemma ParamsB_suffix_B:
  "ParametersRaw m = None \<Longrightarrow> HasSuffix (TrimSpace lib (ToUpper lib (ParameterCount m))) ''B''
     \<Longrightarrow> ParamsB lib m =
         Inr (fst (strconv_ParseFloat lib
                (TrimSpace lib (butlast (TrimSpace lib (ToUpper lib (ParameterCount m)))))))"
  by (clarsimp simp add: ParamsB_def Let_def slice_to_suffix)

lemma ParamsB_suffix_M:
  "ParametersRaw m = None
     \<Longrightarrow> \<not> HasSuffix (TrimSpace lib (ToUpper lib (ParameterCount m))) ''B''
     \<Longrightarrow> HasSuffix (TrimSpace lib (ToUpper lib (ParameterCount m))) ''M''
     \<Longrightarrow> ParamsB lib m =
         Inr (fquot (fst (strconv_ParseFloat lib
                (TrimSpace lib (butlast (TrimSpace lib (ToUpper lib (ParameterCount m)))))))
                (Fin 1000))"
  by (clarsimp simp add: ParamsB_def Let_def slice_to_suffix)

text \<open>The default 7.0 is returned only for a string that, upper-cased and trimmed, ends in
  neither suffix.\<close>

lemma ParamsB_no_suffix:
  "ParametersRaw m = None
     \<Longrightarrow> \<not> HasSuffix (TrimSpace lib (ToUpper lib (ParameterCount m))) ''B''
     \<Longrightarrow> \<not> HasSuffix (TrimSpace lib (ToUpper lib (ParameterCount m))) ''M''
     \<Longrightarrow> ParamsB lib m = Inr (Fin 7)"
  by (simp add: ParamsB_def Let_def)

lemma ParamsB_model7B: "ParamsB stdlib_ascii model7B = Inr (Fin 7)"
  by (simp add: ParamsB_def model7B_def slice_to_def string_defs ParseFloat_defs)

lemma params_of_model7B: "params_of stdlib_ascii model7B = Fin 7"
  by (simp add: params_of_def ParamsB_model7B)

text \<open>The examples of the specification.\<close>

lemma ParamsB_examples:
  "ParamsB stdlib_ascii (model7B\<lparr>ParameterCount := ''1.5B''\<rparr>) = Inr (Fin 1.5)"
  "ParamsB stdlib_ascii (model7B\<lparr>ParameterCount := ''600M''\<rparr>) = Inr (Fin 0.6)"
  "ParamsB stdlib_ascii (model7B\<lparr>ParameterCount := ''137m''\<rparr>) = Inr (Fin 0.137)"
  "ParamsB stdlib_ascii (model7B\<lparr>ParametersRaw := Some 1500000000\<rparr>) = Inr (Fin 1.5)"
  by (simp_all add: ParamsB_def model7B_def slice_to_def string_defs ParseFloat_defs)

text \<open>
  C5. The claim has \<open>ParamsB\<close> return the default 7.0 for every empty or unparseable
  parameter-count string. The strings 8x7B and medium are unparseable and end in a suffix
  letter: the number parser rejects what stands before the suffix, the code drops the
  parser's error and returns the value that comes with it, 0 (0 / 1000 for the suffix M).
  A string without a suffix, and the empty string, give the default 7.0.
\<close>

theorem ParamsB_unparseable_not_default:
  "ParamsB stdlib_ascii (model7B\<lparr>ParameterCount := ''8x7B''\<rparr>) = Inr (Fin 0)
   \<and> ParamsB stdlib_ascii (model7B\<lparr>ParameterCount := ''medium''\<rparr>) = Inr (Fin 0)
   \<and> strconv_ParseFloat stdlib_ascii ''8X7'' = (Fin 0, False)
   \<and> strconv_ParseFloat stdlib_ascii ''MEDIU'' = (Fin 0, False)
   \<and> ParamsB stdlib_ascii (model7B\<lparr>ParameterCount := ''unknown''\<rparr>) = Inr (Fin 7)
   \<and> ParamsB stdlib_ascii (model7B\<lparr>ParameterCount := []\<rparr>) = Inr (Fin 7)"
  by (simp add: ParamsB_def model7B_def slice_to_def string_defs ParseFloat_defs)

subsection \<open>Memory estimate\<close>

lemma QuantBPP_Fin: "\<exists>b. QuantBPP q = Fin b \<and> 0 < b"
proof -
  have "case QuantBPP q of Fin b \<Rightarrow> 0 < b | _ \<Rightarrow> False"
    by (simp add: QuantBPP_def)
  then show ?thesis
    by (cases "QuantBPP q") auto
qed

lemma estimate_of_Fin:
  assumes "params_of lib m = Fin p" and "QuantBPP q = Fin b"
  shows "estimate_of lib m q ctx = Fin (p * b + 0.000008 * p * real (unat ctx) + 0.5)"
  using assms by (simp add: estimate_of_def)

lemma estimate_of_mono_params:
  assumes "params_of lib m1 = Fin p1" and "params_of lib m2 = Fin p2" and "p1 \<le> p2"
  shows "fle (estimate_of lib m1 q ctx) (estimate_of lib m2 q ctx)"
proof -
  obtain b where b: "QuantBPP q = Fin b" "0 < b"
    using QuantBPP_Fin by blast
  define x where "x = real (unat ctx)"
  have "0 \<le> x" unfolding x_def by (rule of_nat_0_le_iff)
  then have pos: "0 \<le> b + 0.000008 * x"
    using b(2) by simp
  have "p1 * (b + 0.000008 * x) \<le> p2 * (b + 0.000008 * x)"
    using assms(3) pos by (rule mult_right_mono)
  then have "p1 * b + 0.000008 * p1 * x + 0.5 \<le> p2 * b + 0.000008 * p2 * x + 0.5"
    by (simp add: algebra_simps)
  then show ?thesis
    unfolding estimate_of_Fin [OF assms(1) b(1)] estimate_of_Fin [OF assms(2) b(1)]
              x_def [symmetric]
    by (simp only: fle.simps)
qed

lemma estimate_of_mono_ctx:
  assumes "params_of lib m = Fin p" and "0 \<le> p" and "c1 \<le> c2"
  shows "fle (estimate_of lib m q c1) (estimate_of lib m q c2)"
proof -
  obtain b where b: "QuantBPP q = Fin b" "0 < b"
    using QuantBPP_Fin by blast
  define x1 where "x1 = real (unat c1)"
  define x2 where "x2 = real (unat c2)"
  have "unat c1 \<le> unat c2"
    using assms(3) by (simp add: word_le_nat_alt)
  then have "x1 \<le> x2" by (simp only: x1_def x2_def of_nat_le_iff)
  then have "p * x1 \<le> p * x2"
    using assms(2) by (rule mult_left_mono)
  then have "p * b + 0.000008 * p * x1 + 0.5 \<le> p * b + 0.000008 * p * x2 + 0.5"
    by simp
  then show ?thesis
    unfolding estimate_of_Fin [OF assms(1) b(1)] x1_def [symmetric] x2_def [symmetric]
    by (simp only: fle.simps)
qed

lemma estimate_of_pos:
  assumes "params_of lib m = Fin p" and "0 \<le> p"
  shows "fgt (estimate_of lib m q ctx) (Fin 0)"
proof -
  obtain b where b: "QuantBPP q = Fin b" "0 < b"
    using QuantBPP_Fin by blast
  define x where "x = real (unat ctx)"
  have "0 \<le> x" unfolding x_def by (rule of_nat_0_le_iff)
  then have "0 \<le> p * b" and "0 \<le> 0.000008 * p * x"
    using assms(2) b(2) by simp_all
  then have "0 < p * b + 0.000008 * p * x + 0.5"
    by linarith
  then show ?thesis
    unfolding estimate_of_Fin [OF assms(1) b(1)] x_def [symmetric]
    by (simp only: fgt_Fin)
qed

text \<open>
  C6, as amended. For a model whose parameter count in billions is \<open>p\<close>,
  \<open>EstimateMemoryGB\<close> is \<open>p\<close> times the bytes per parameter of the quantization, plus
  8e-6 times \<open>p\<close> times the context length, plus 0.5, in the arithmetic of float64. For
  finite parameter counts the estimate never decreases when the parameter count grows;
  for a finite parameter count that is not negative it never decreases when the context
  length grows; and it is the constant 0.5, whatever the context length, when the
  parameter count is 0.
\<close>

theorem EstimateMemoryGB_formula_monotone:
  assumes "ParamsB lib m = Inr p" and "ParamsB lib m' = Inr p'"
  shows "EstimateMemoryGB lib m q c =
           Inr (fadd (fadd (fmul p (QuantBPP q))
                           (fmul (fmul (Fin 0.000008) p) (Fin (real (unat c))))) (Fin 0.5))
         \<and> (p = Fin x \<and> p' = Fin x' \<and> x \<le> x' \<and> EstimateMemoryGB lib m q c = Inr e
              \<and> EstimateMemoryGB lib m' q c = Inr e' \<longrightarrow> fle e e')
         \<and> (p = Fin x \<and> 0 \<le> x \<and> c \<le> c' \<and> EstimateMemoryGB lib m q c = Inr e
              \<and> EstimateMemoryGB lib m q c' = Inr e'' \<longrightarrow> fle e e'')
         \<and> (p = Fin 0 \<longrightarrow> EstimateMemoryGB lib m q c = Inr (Fin 0.5))"
proof -
  have p: "params_of lib m = p" "params_of lib m' = p'"
    using assms by (simp_all add: params_of_def)
  have "EstimateMemoryGB lib m q c =
          Inr (fadd (fadd (fmul p (QuantBPP q))
                          (fmul (fmul (Fin 0.000008) p) (Fin (real (unat c))))) (Fin 0.5))"
    unfolding EstimateMemoryGB_estimate_of estimate_of_def p by (rule refl)
  moreover have "p = Fin x \<and> p' = Fin x' \<and> x \<le> x' \<and> EstimateMemoryGB lib m q c = Inr e
                   \<and> EstimateMemoryGB lib m' q c = Inr e' \<longrightarrow> fle e e'"
    using estimate_of_mono_params [of lib m x m' x' q c] p
    by (auto simp add: EstimateMemoryGB_estimate_of)
  moreover have "p = Fin x \<and> 0 \<le> x \<and> c \<le> c' \<and> EstimateMemoryGB lib m q c = Inr e
                   \<and> EstimateMemoryGB lib m q c' = Inr e'' \<longrightarrow> fle e e''"
    using estimate_of_mono_ctx [of lib m x c c' q] p
    by (auto simp add: EstimateMemoryGB_estimate_of)
  moreover have "p = Fin 0 \<longrightarrow> EstimateMemoryGB lib m q c = Inr (Fin 0.5)"
  proof
    assume z: "p = Fin 0"
    obtain b where b: "QuantBPP q = Fin b" "0 < b"
      using QuantBPP_Fin by blast
    show "EstimateMemoryGB lib m q c = Inr (Fin 0.5)"
      unfolding EstimateMemoryGB_estimate_of estimate_of_def p z b(1) by simp
  qed
  ultimately show ?thesis by blast
qed

text \<open>The 7B model at Q4\_K\_M: 7 times 0.58 plus 8e-6 times 7 times the context plus 0.5,
  against a 1.5B model and against a longer context.\<close>

theorem EstimateMemoryGB_formula_monotone_witness:
  "ParamsB stdlib_ascii (model7B\<lparr>ParameterCount := ''1.5B''\<rparr>) = Inr (Fin 1.5)
   \<and> ParamsB stdlib_ascii model7B = Inr (Fin 7)
   \<and> (0 :: real) \<le> 1.5 \<and> (1.5 :: real) \<le> 7 \<and> (2048 :: 32 word) \<le> 4096
   \<and> EstimateMemoryGB stdlib_ascii (model7B\<lparr>ParameterCount := ''1.5B''\<rparr>) ''Q4_K_M'' 2048
       = Inr (Fin 1.394576)
   \<and> EstimateMemoryGB stdlib_ascii model7B ''Q4_K_M'' 2048 = Inr (Fin 4.674688)
   \<and> EstimateMemoryGB stdlib_ascii (model7B\<lparr>ParameterCount := ''1.5B''\<rparr>) ''Q4_K_M'' 4096
       = Inr (Fin 1.419152)
   \<and> EstimateMemoryGB stdlib_ascii model7B ''Q4_K_M'' 4096
       = Inr (Fin (7 * 0.58 + 0.000008 * 7 * 4096 + 0.5))
   \<and> fle (Fin 1.394576) (Fin 4.674688) \<and> fle (Fin 1.394576) (Fin 1.419152)"
proof -
  have a: "ParamsB stdlib_ascii (model7B\<lparr>ParameterCount := ''1.5B''\<rparr>) = Inr (Fin 1.5)"
    by (rule ParamsB_examples(1))
  have b: "ParamsB stdlib_ascii model7B = Inr (Fin 7)"
    by (rule ParamsB_model7B)
  have c: "EstimateMemoryGB stdlib_ascii model7B ''Q4_K_M'' 2048 = Inr (Fin 4.674688)"
    by (simp add: EstimateMemoryGB_def b QuantBPP_def)
  have d: "EstimateMemoryGB stdlib_ascii (model7B\<lparr>ParameterCount := ''1.5B''\<rparr>) ''Q4_K_M'' 4096
             = Inr (Fin 1.419152)"
    by (simp add: EstimateMemoryGB_def a QuantBPP_def)
  have e: "EstimateMemoryGB stdlib_ascii model7B ''Q4_K_M'' 4096
             = Inr (Fin (7 * 0.58 + 0.000008 * 7 * 4096 + 0.5))"
    using EstimateMemoryGB_formula_monotone [OF b b, of "''Q4_K_M''" 4096]
    by (simp add: QuantBPP_def)
  show ?thesis
    using EstimateMemoryGB_formula_monotone
            [OF a b, of "''Q4_K_M''" 2048 "1.5" 7 "Fin 1.394576" "Fin 4.674688" 4096
               "Fin 1.419152"] a b c d e
    by (simp add: QuantBPP_def)
qed

text \<open>C6 as stated fails: a model of 0 parameters has the estimate 0.5 at every context
  length, so the estimate does not increase from context 2048 to context 4096.\<close>

theorem EstimateMemoryGB_counterexample:
  "EstimateMemoryGB stdlib_ascii (model7B\<lparr>ParametersRaw := Some 0\<rparr>) ''Q4_K_M'' 2048
     = Inr (Fin 0.5)
   \<and> EstimateMemoryGB stdlib_ascii (model7B\<lparr>ParametersRaw := Some 0\<rparr>) ''Q4_K_M'' 4096
       = Inr (Fin 0.5)"
  by (simp add: EstimateMemoryGB_def ParamsB_def model7B_def QuantBPP_def)

subsection \<open>Quantization search\<close>

lemma BestQuantForBudget_scan_find:
  "BestQuantForBudget_scan lib m b ctx qs =
     Inr (map_option (\<lambda>q. (q, estimate_of lib m q ctx))
            (find (\<lambda>q. fle (estimate_of lib m q ctx) b) qs))"
  by (induction qs) (simp_all add: EstimateMemoryGB_estimate_of)

text \<open>The search, with its two scans as \<open>find\<close>.\<close>

lemma BestQuantForBudget_find:
  "BestQuantForBudget lib m budgetGB ctx =
     Inr (case find (\<lambda>q. fle (estimate_of lib m q ctx) budgetGB) QuantHierarchy of
            Some q \<Rightarrow> (q, estimate_of lib m q ctx)
          | None \<Rightarrow>
              (case (if 1024 \<le> ctx div 2
                     then find (\<lambda>q. fle (estimate_of lib m q (ctx div 2)) budgetGB) QuantHierarchy
                     else None) of
                 Some q \<Rightarrow> (q, estimate_of lib m q (ctx div 2))
               | None \<Rightarrow> (Quantization m, estimate_of lib m (Quantization m) ctx)))"
  unfolding BestQuantForBudget_def Let_def
  by (simp add: BestQuantForBudget_scan_find EstimateMemoryGB_estimate_of split: option.splits)

lemma half_ctx_ge: "(2048 :: 32 word) \<le> ctx \<Longrightarrow> 1024 \<le> ctx div 2"
  by (simp add: word_le_nat_alt unat_div)




subsection \<open>Speed estimate\<close>

lemma clamp_fmax: "(if flt x c then c else x) = fmax x c"
  by (simp add: fmax_def)

lemma fmul_one: "fmul a (Fin 1) = a"
  by (cases a) (simp_all add: inf_signed_def)

lemma fdiv_clamped:
  "fdiv x (fmax (params_of lib m) (Fin 0.1)) = Inr (fquot x (fmax (params_of lib m) (Fin 0.1)))"
proof -
  have "fmax (params_of lib m) (Fin 0.1) \<noteq> Fin 0"
    using clamped_params_neq [of "params_of lib m"] by (simp add: fmax_def)
  then show ?thesis
    by (rule fdiv_Inr)
qed

text \<open>Outside CPU-only mode the code computes what the specification says.\<close>

lemma estimateTPS_off_cpu:
  assumes "runMode \<noteq> RunModeCpuOnly"
  shows "estimateTPS lib arm64 m q s runMode = Inr (estimateTPS_spec lib arm64 m q s runMode)"
  using assms unfolding estimateTPS_def estimateTPS_spec_def Let_def ParamsB_Inr
  apply (simp only: bindE_Inr clamp_fmax fdiv_clamped if_False)
  apply (cases runMode; simp add: fmul_one)
  done

text \<open>In CPU-only mode the recomputation overwrites the penalised value: the factor 0.3
  is not in the result.\<close>

lemma estimateTPS_cpu_only:
  "estimateTPS lib arm64 m q s RunModeCpuOnly =
     Inr (fmax (if TotalCPUCores s \<ge> 8
                then fmul (fmul (fquot (if arm64 then Fin 90 else Fin 70)
                                   (fmax (params_of lib m) (Fin 0.1)))
                             (QuantSpeedMultiplier q)) (Fin 1.1)
                else fmul (fquot (if arm64 then Fin 90 else Fin 70)
                             (fmax (params_of lib m) (Fin 0.1)))
                       (QuantSpeedMultiplier q)) (Fin 0.1))"
  unfolding estimateTPS_def Let_def ParamsB_Inr
  apply (simp only: bindE_Inr clamp_fmax fdiv_clamped if_True)
  apply simp
  done

text \<open>The result is never below 0.1.\<close>

lemma fmax_floor: "\<not> flt (fmax b c) c"
  by (simp add: fmax_def)

lemma estimateTPS_floor:
  "estimateTPS lib arm64 m q s runMode = Inr t \<Longrightarrow> \<not> flt t (Fin 0.1)"
  unfolding estimateTPS_def Let_def ParamsB_Inr
  apply (simp only: bindE_Inr clamp_fmax fdiv_clamped)
  apply (cases "runMode = RunModeCpuOnly"; auto simp: fmax_floor)
  done

text \<open>
  C7. The claim gives the CPU-only estimate as the CPU constant over the clamped
  parameter count, times the speed multiplier, times 1.1 from eight cores on, times the
  penalty 0.3. For the 7B model at Q8\_0 on an x86 machine with eight cores and no GPU
  that is 70 / 7 * 0.8 * 1.1 * 0.3 = 2.64, and the code returns 8.8.
\<close>

theorem estimateTPS_cpu_only_penalty_lost:
  "estimateTPS stdlib_ascii False model7B ''Q8_0'' (specNoGPU (Fin 32) 8) RunModeCpuOnly
     = Inr (Fin 8.8)
   \<and> estimateTPS_spec stdlib_ascii False model7B ''Q8_0'' (specNoGPU (Fin 32) 8) RunModeCpuOnly
       = Fin 2.64"
  by (simp add: estimateTPS_cpu_only estimateTPS_spec_def params_of_model7B specNoGPU_def
        QuantSpeedMultiplier_def fmax_def)

subsection \<open>Analyze on the fixtures\<close>

lemma model7B_fields:
  "MinVRAMGB model7B = Some (Fin 6)" "MinRAMGB model7B = Fin 8"
  "RecommendedRAMGB model7B = Fin 12" "ContextLength model7B = 4096"
  "Quantization model7B = ''Q4_K_M''"
  by (simp_all add: model7B_def)

lemma model0_fields:
  "MinVRAMGB model0 = None" "MinRAMGB model0 = Fin 8" "RecommendedRAMGB model0 = Fin 12"
  "ContextLength model0 = 4096" "Quantization model0 = ''Q4_K_M''"
  by (simp_all add: model0_def model7B_def)

lemma params_of_model0: "params_of lib model0 = Fin 0"
  by (simp add: params_of_def ParamsB_def model0_def)

lemma UseCaseFromModel_model7B: "UseCaseFromModel stdlib_ascii model7B = UseCaseGeneral"
  by (simp add: UseCaseFromModel_def model7B_def ToLower_def lower_of_def is_ascii_def)

lemma UseCaseFromModel_model0: "UseCaseFromModel stdlib_ascii model0 = UseCaseGeneral"
  by (simp add: UseCaseFromModel_def model0_def model7B_def ToLower_def lower_of_def
        is_ascii_def)

lemma qualityScore_model7B:
  "qualityScore stdlib_ascii model7B ''Q8_0'' UseCaseGeneral = Inr (Fin 75)"
  by (simp add: qualityScore_def ParamsB_Inr params_of_model7B QuantQualityPenalty_def)
     (simp add: model7B_def ToLower_def lower_of_def is_ascii_def)

lemma qualityScore_model0:
  "qualityScore stdlib_ascii model0 ''Q4_K_M'' UseCaseGeneral = Inr (Fin 25)"
  by (simp add: qualityScore_def ParamsB_Inr params_of_model0 QuantQualityPenalty_def)
     (simp add: model0_def model7B_def ToLower_def lower_of_def is_ascii_def)

text \<open>The scenario of the specification and of \<^verbatim>\<open>TestAnalyze_CPUOnly\<close>: no GPU, 32 GB of
  RAM of which 25.6 are available, eight cores.\<close>

lemma Analyze_model7B_cpu:
  "Analyze stdlib_ascii False model7B (specNoGPU (Fin 32) 8) = Inr fitCpuOnly"
proof -
  have s: "AvailableRAMGB (specNoGPU (Fin 32) 8) = Fin (128 / 5)"
    "TotalCPUCores (specNoGPU (Fin 32) 8) = 8"
    by (simp_all add: specNoGPU_def)
  have sel: "Analyze_select model7B (specNoGPU (Fin 32) 8) (Fin 6) [] =
      Inr (RunModeCpuOnly, Fin 8, Fin (128 / 5),
           [Note ''CPU-only: model loaded into system RAM''])"
    by (simp add: Analyze_select_def cpuPath_def model7B_def specNoGPU_def)
  have bq: "BestQuantForBudget stdlib_ascii model7B (Fin (128 / 5)) 4096
      = Inr (''Q8_0'', Fin 8.079376)"
    by (simp add: BestQuantForBudget_def EstimateMemoryGB_estimate_of estimate_of_def
          params_of_model7B QuantHierarchy_def QuantBPP_def)
  have tps: "estimateTPS stdlib_ascii False model7B ''Q8_0'' (specNoGPU (Fin 32) 8)
      RunModeCpuOnly = Inr (Fin (44 / 5))"
    by (simp add: estimateTPS_cpu_only params_of_model7B s QuantSpeedMultiplier_def fmax_def)
  have sc: "computeScores stdlib_ascii model7B ''Q8_0'' UseCaseGeneral (Fin (44 / 5)) (Fin 8)
      (Fin (128 / 5)) = Inr \<lparr>Quality = Fin 75, Speed = Fin 22, Fit = Fin 85, Context = Fin 100\<rparr>"
    by (simp add: computeScores_def qualityScore_model7B fitScore_def fdiv_def speedScore_def
          contextScore_def model7B_fields)
  have ws: "weightedScore \<lparr>Quality = Fin 75, Speed = Fin 22, Fit = Fin 85, Context = Fin 100\<rparr>
      UseCaseGeneral = Fin (631 / 10)"
    by (simp add: weightedScore_def)
  show ?thesis
    unfolding fitCpuOnly_def
    by (simp add: Analyze_def model7B_fields s UseCaseFromModel_model7B sel bq tps sc ws
          scoreFit_def fdiv_def)
qed

text \<open>\<^verbatim>\<open>specWithGPU(16, 32, true)\<close>: a GPU with 16 GB of unified memory.\<close>

lemma Analyze_model7B_unified:
  "Analyze stdlib_ascii False model7B (specWithGPU (Fin 16) (Fin 32) True) = Inr fitUnified"
proof -
  have s: "TotalCPUCores (specWithGPU (Fin 16) (Fin 32) True) = 8"
    by (simp add: specWithGPU_def)
  have sel: "Analyze_select model7B (specWithGPU (Fin 16) (Fin 32) True) (Fin 6) [] =
      Inr (RunModeGpu, Fin 6, Fin 16, [Note ''Unified memory: GPU and CPU share the same pool''])"
    by (simp add: Analyze_select_def model7B_def specWithGPU_def)
  have bq: "BestQuantForBudget stdlib_ascii model7B (Fin 16) 4096 = Inr (''Q8_0'', Fin 8.079376)"
    by (simp add: BestQuantForBudget_def EstimateMemoryGB_estimate_of estimate_of_def
          params_of_model7B QuantHierarchy_def QuantBPP_def)
  have tps: "estimateTPS stdlib_ascii False model7B ''Q8_0'' (specWithGPU (Fin 16) (Fin 32) True)
      RunModeGpu = Inr (Fin (968 / 35))"
    by (simp add: estimateTPS_off_cpu estimateTPS_spec_def params_of_model7B specWithGPU_def
          QuantSpeedMultiplier_def fmax_def)
  have sc: "computeScores stdlib_ascii model7B ''Q8_0'' UseCaseGeneral (Fin (968 / 35)) (Fin 6)
      (Fin 16) = Inr \<lparr>Quality = Fin 75, Speed = Fin (484 / 7), Fit = Fin 90, Context = Fin 100\<rparr>"
    by (simp add: computeScores_def qualityScore_model7B fitScore_def fdiv_def speedScore_def
          contextScore_def model7B_fields)
  have ws: "weightedScore
      \<lparr>Quality = Fin 75, Speed = Fin (484 / 7), Fit = Fin 90, Context = Fin 100\<rparr>
      UseCaseGeneral = Fin 78"
    by (simp add: weightedScore_def)
  show ?thesis
    unfolding fitUnified_def
    by (simp add: Analyze_def model7B_fields s UseCaseFromModel_model7B sel bq tps sc ws
          scoreFit_def fdiv_def)
qed

text \<open>No memory, no cores, no parameters, no optional field.\<close>

lemma Analyze_model0_no_memory:
  "Analyze stdlib_ascii False model0 (specNoGPU (Fin 0) 0) = Inr fitNoMemory"
proof -
  have s: "AvailableRAMGB (specNoGPU (Fin 0) 0) = Fin 0" "TotalCPUCores (specNoGPU (Fin 0) 0) = 0"
    by (simp_all add: specNoGPU_def)
  have sel: "Analyze_select model0 (specNoGPU (Fin 0) 0) (Fin 8) [] =
      Inr (RunModeCpuOnly, Fin 8, Fin 0, [Note ''CPU-only: model loaded into system RAM''])"
    by (simp add: Analyze_select_def cpuPath_def model0_def model7B_def specNoGPU_def)
  have bq: "BestQuantForBudget stdlib_ascii model0 (Fin 0) 4096 = Inr (''Q4_K_M'', Fin (1 / 2))"
    by (simp add: BestQuantForBudget_def EstimateMemoryGB_estimate_of estimate_of_def
          params_of_model0 QuantHierarchy_def QuantBPP_def model0_fields)
  have tps: "estimateTPS stdlib_ascii False model0 ''Q4_K_M'' (specNoGPU (Fin 0) 0)
      RunModeCpuOnly = Inr (Fin 805)"
    by (simp add: estimateTPS_cpu_only params_of_model0 s QuantSpeedMultiplier_def fmax_def)
  have sc: "computeScores stdlib_ascii model0 ''Q4_K_M'' UseCaseGeneral (Fin 805) (Fin 8) (Fin 0)
      = Inr \<lparr>Quality = Fin 25, Speed = Fin 100, Fit = Fin 0, Context = Fin 100\<rparr>"
    by (simp add: computeScores_def qualityScore_model0 fitScore_def speedScore_def
          contextScore_def model0_fields)
  have ws: "weightedScore \<lparr>Quality = Fin 25, Speed = Fin 100, Fit = Fin 0, Context = Fin 100\<rparr>
      UseCaseGeneral = Fin (513 / 10)"
    by (simp add: weightedScore_def)
  show ?thesis
    unfolding fitNoMemory_def
    by (simp add: Analyze_def model0_fields s UseCaseFromModel_model0 sel bq tps sc ws
          scoreFit_def)
qed

subsection \<open>Totality\<close>

text \<open>
  C9. \<open>Analyze\<close> is total: for every model record and every hardware snapshot, also
  with zero memory, zero parameters or absent optional fields, it returns a fit result
  for that model. No pointer is read while nil, no slice is cut out of range and no
  division has a zero divisor, since each of these is an error value of the model.
\<close>

theorem Analyze_total: "\<exists>r. Analyze lib arm64 m s = Inr r \<and> Model r = m"
  using Analyze_Inr [of m s lib arm64] by (elim exE conjE) simp

theorem Analyze_total_witness:
  "Analyze stdlib_ascii False model0 (specNoGPU (Fin 0) 0) = Inr fitNoMemory
   \<and> Model fitNoMemory = model0
   \<and> ParametersRaw model0 = Some 0 \<and> MinVRAMGB model0 = None
   \<and> AvailableRAMGB (specNoGPU (Fin 0) 0) = Fin 0"
  using Analyze_total [of stdlib_ascii False model0 "specNoGPU (Fin 0) 0"]
  by (simp add: Analyze_model0_no_memory) (simp add: fitNoMemory_def model0_def specNoGPU_def)

subsection \<open>Run mode, fit level and utilization\<close>

lemma moeOffloadPath_not_CpuOnly:
  assumes "moeOffloadPath m s sv tv ns = Inr (rm, rq, av, ns')"
  shows "rm \<noteq> RunModeCpuOnly"
proof -
  obtain a where a: "MoeActiveVRAMGB m = Inr a"
    using MoeActiveVRAMGB_total by blast
  obtain b where b: "MoeOffloadedRAMGB m = Inr b"
    using MoeOffloadedRAMGB_total by blast
  show ?thesis
    using assms
    by (cases a; cases b; cases "ActiveExperts m"; cases "NumExperts m")
       (auto simp add: moeOffloadPath_def a b split: if_splits)
qed

text \<open>CPU-only mode comes from \<open>cpuPath\<close> alone.\<close>

lemma Analyze_select_CpuOnly:
  assumes "Analyze_select m s mv ns = Inr (RunModeCpuOnly, rq, av, ns')"
  shows "rq = MinRAMGB m \<and> av = AvailableRAMGB s"
  using assms moeOffloadPath_not_CpuOnly [of m s _ mv ns RunModeCpuOnly rq av ns']
  by (cases "GpuVRAMGB s"; cases "ActiveExperts m"; cases "NumExperts m")
     (auto simp add: Analyze_select_def Let_def cpuPath_def split: if_splits)

lemma Analyze_select_unified:
  assumes "HasGPU s" "UnifiedMemory s" "GpuVRAMGB s = Some v"
  shows "\<exists>ns'. Analyze_select m s mv ns = Inr (RunModeGpu, mv, v, ns')"
  using assms
  by (cases "ActiveExperts m"; cases "NumExperts m") (simp_all add: Analyze_select_def Let_def)

text \<open>
  C1. Whenever \<open>Analyze\<close> selects CPU-only run mode, the required memory is the model's
  minimum RAM, the available memory is the system's available RAM, and the fit level is
  TooTight when required exceeds available and Marginal in every other case: never
  Perfect or Good, however far the available RAM exceeds the minimum or the recommended
  RAM.
\<close>

theorem cpu_only_fit_level:
  assumes "Analyze lib arm64 m s = Inr r" and "RunMode r = RunModeCpuOnly"
  shows "MemoryRequiredGB r = MinRAMGB m \<and> MemoryAvailableGB r = AvailableRAMGB s
         \<and> FitLevel r = (if fgt (MemoryRequiredGB r) (MemoryAvailableGB r) then FitTooTight
                          else FitMarginal)
         \<and> FitLevel r \<noteq> FitPerfect \<and> FitLevel r \<noteq> FitGood"
proof -
  obtain mv ns where
    sel: "Analyze_select m s mv [] =
            Inr (RunMode r, MemoryRequiredGB r, MemoryAvailableGB r, ns)" and
    fl: "FitLevel r = scoreFit (MemoryRequiredGB r) (MemoryAvailableGB r)
                        (RecommendedRAMGB m) (RunMode r)"
    using Analyze_fields [OF assms(1)] by blast
  have "MemoryRequiredGB r = MinRAMGB m \<and> MemoryAvailableGB r = AvailableRAMGB s"
    using sel assms(2) Analyze_select_CpuOnly by simp
  moreover have "FitLevel r = (if fgt (MemoryRequiredGB r) (MemoryAvailableGB r)
                               then FitTooTight else FitMarginal)"
    using fl assms(2) by (simp add: scoreFit_def)
  ultimately show ?thesis by simp
qed

text \<open>The scenario of the specification: a 7B model, no GPU, 32 GB of RAM of which 25.6
  are available, minimum RAM 8 and recommended RAM 12.\<close>

theorem cpu_only_fit_level_witness:
  "Analyze stdlib_ascii False model7B (specNoGPU (Fin 32) 8) = Inr fitCpuOnly
   \<and> RunMode fitCpuOnly = RunModeCpuOnly
   \<and> MemoryRequiredGB fitCpuOnly = MinRAMGB model7B
   \<and> MemoryAvailableGB fitCpuOnly = AvailableRAMGB (specNoGPU (Fin 32) 8)
   \<and> MemoryAvailableGB fitCpuOnly = Fin 25.6 \<and> MinRAMGB model7B = Fin 8
   \<and> RecommendedRAMGB model7B = Fin 12
   \<and> FitLevel fitCpuOnly = FitMarginal"
proof -
  have rm: "RunMode fitCpuOnly = RunModeCpuOnly"
    by (simp add: fitCpuOnly_def)
  show ?thesis
    using cpu_only_fit_level [OF Analyze_model7B_cpu rm] Analyze_model7B_cpu rm
    by (simp add: fitCpuOnly_def model7B_def)
qed

text \<open>
  C4, as amended. For every hardware snapshot that has a GPU with unified memory and
  known VRAM, \<open>Analyze\<close> selects GPU run mode over the shared pool: the required memory
  is the model's minimum VRAM (its minimum RAM when no minimum VRAM is declared) and the
  available memory is the GPU's VRAM figure.
\<close>

theorem unified_memory_gpu_mode:
  assumes "Analyze lib arm64 m s = Inr r"
      and "HasGPU s" and "UnifiedMemory s" and "GpuVRAMGB s = Some v"
  shows "RunMode r = RunModeGpu
         \<and> MemoryRequiredGB r = (case MinVRAMGB m of None \<Rightarrow> MinRAMGB m | Some mv \<Rightarrow> mv)
         \<and> MemoryAvailableGB r = v"
proof -
  obtain mv ns where
    mv: "(if MinVRAMGB m \<noteq> None then deref (MinVRAMGB m) else Inr (MinRAMGB m)) = Inr mv" and
    sel: "Analyze_select m s mv [] =
            Inr (RunMode r, MemoryRequiredGB r, MemoryAvailableGB r, ns)"
    using Analyze_fields [OF assms(1)] by blast
  have "mv = (case MinVRAMGB m of None \<Rightarrow> MinRAMGB m | Some mv \<Rightarrow> mv)"
    using mv by (cases "MinVRAMGB m") auto
  moreover obtain ns' where "Analyze_select m s mv [] = Inr (RunModeGpu, mv, v, ns')"
    using Analyze_select_unified [OF assms(2-4)] by blast
  ultimately show ?thesis using sel by simp
qed

theorem unified_memory_gpu_mode_witness:
  "Analyze stdlib_ascii False model7B (specWithGPU (Fin 16) (Fin 32) True) = Inr fitUnified
   \<and> HasGPU (specWithGPU (Fin 16) (Fin 32) True)
   \<and> UnifiedMemory (specWithGPU (Fin 16) (Fin 32) True)
   \<and> GpuVRAMGB (specWithGPU (Fin 16) (Fin 32) True) = Some (Fin 16)
   \<and> RunMode fitUnified = RunModeGpu \<and> MemoryRequiredGB fitUnified = Fin 6
   \<and> MemoryAvailableGB fitUnified = Fin 16"
proof -
  have s: "HasGPU (specWithGPU (Fin 16) (Fin 32) True)"
    "UnifiedMemory (specWithGPU (Fin 16) (Fin 32) True)"
    "GpuVRAMGB (specWithGPU (Fin 16) (Fin 32) True) = Some (Fin 16)"
    by (simp_all add: specWithGPU_def)
  show ?thesis
    using unified_memory_gpu_mode [OF Analyze_model7B_unified s] Analyze_model7B_unified s
    by (simp add: model7B_def)
qed

text \<open>C4 as stated fails: with 16 GB of unified VRAM and 25.6 GB of available RAM, the
  7B model (minimum RAM 8, minimum VRAM 6) is given required 6 and available 16, not the
  minimum RAM and the available RAM.\<close>

theorem unified_memory_counterexample:
  "Analyze stdlib_ascii False model7B (specWithGPU (Fin 16) (Fin 32) True) = Inr fitUnified
   \<and> HasGPU (specWithGPU (Fin 16) (Fin 32) True)
   \<and> UnifiedMemory (specWithGPU (Fin 16) (Fin 32) True)
   \<and> GpuVRAMGB (specWithGPU (Fin 16) (Fin 32) True) = Some (Fin 16)
   \<and> MemoryRequiredGB fitUnified = Fin 6 \<and> MinRAMGB model7B = Fin 8
   \<and> MemoryAvailableGB fitUnified = Fin 16
   \<and> AvailableRAMGB (specWithGPU (Fin 16) (Fin 32) True) = Fin 25.6"
  by (simp add: Analyze_model7B_unified) (simp add: fitUnified_def model7B_def specWithGPU_def)

text \<open>
  C10. Every fit result returned by \<open>Analyze\<close> has a utilization of required over
  available times 100 when the available memory is strictly positive, and of
  \<open>MaxFloat64\<close> when it is not: when the available memory is zero or negative, and also
  when it is NaN.
\<close>

theorem utilization_pct:
  assumes "Analyze lib arm64 m s = Inr r"
  shows "(fgt (MemoryAvailableGB r) (Fin 0) \<longrightarrow>
            UtilizationPct r = fmul (fquot (MemoryRequiredGB r) (MemoryAvailableGB r)) (Fin 100))
         \<and> (fle (MemoryAvailableGB r) (Fin 0) \<or> MemoryAvailableGB r = NaN
              \<longrightarrow> UtilizationPct r = MaxFloat64)"
proof -
  have "fle (MemoryAvailableGB r) (Fin 0) \<or> MemoryAvailableGB r = NaN
          \<Longrightarrow> \<not> fgt (MemoryAvailableGB r) (Fin 0)"
    by (cases "MemoryAvailableGB r") (auto simp: fgt_def)
  then show ?thesis
    using Analyze_fields [OF assms] by auto
qed

theorem utilization_pct_witness:
  "Analyze stdlib_ascii False model7B (specNoGPU (Fin 32) 8) = Inr fitCpuOnly
   \<and> fgt (MemoryAvailableGB fitCpuOnly) (Fin 0)
   \<and> UtilizationPct fitCpuOnly
       = fmul (fquot (MemoryRequiredGB fitCpuOnly) (MemoryAvailableGB fitCpuOnly)) (Fin 100)
   \<and> UtilizationPct fitCpuOnly = Fin 31.25
   \<and> Analyze stdlib_ascii False model0 (specNoGPU (Fin 0) 0) = Inr fitNoMemory
   \<and> fle (MemoryAvailableGB fitNoMemory) (Fin 0)
   \<and> UtilizationPct fitNoMemory = MaxFloat64"
proof -
  have a: "fgt (MemoryAvailableGB fitCpuOnly) (Fin 0)"
    and b: "fle (MemoryAvailableGB fitNoMemory) (Fin 0)"
    by (simp_all add: fitCpuOnly_def fitNoMemory_def)
  have c: "UtilizationPct fitCpuOnly = Fin 31.25"
    by (simp add: fitCpuOnly_def)
  show ?thesis
    using utilization_pct [OF Analyze_model7B_cpu] utilization_pct [OF Analyze_model0_no_memory]
      Analyze_model7B_cpu Analyze_model0_no_memory a b c
    by simp
qed

subsection \<open>Ranking\<close>

lemma mset_insertionSort_insert: "mset (insertionSort_insert l x ys) = add_mset x (mset ys)"
  by (induction ys) simp_all

lemma mset_insertionSort: "mset (insertionSort l acc xs) = mset acc + mset xs"
  by (induction xs arbitrary: acc) (simp_all add: mset_insertionSort_insert)

lemma set_insertionSort_insert: "set (insertionSort_insert l x ys) = insert x (set ys)"
  using mset_insertionSort_insert [of l x ys] by (metis set_mset_add_mset_insert set_mset_mset)

text \<open>The prefix stays ordered when, on the elements of the list (those with \<open>P\<close>), the
  comparator is asymmetric and its negation is transitive: a strict weak order.\<close>

lemma sorted_insertionSort_insert:
  assumes asym: "\<And>a b. P a \<Longrightarrow> P b \<Longrightarrow> l a b \<Longrightarrow> \<not> l b a"
      and ntrans: "\<And>a b c. P a \<Longrightarrow> P b \<Longrightarrow> P c \<Longrightarrow> \<not> l a b \<Longrightarrow> \<not> l b c \<Longrightarrow> \<not> l a c"
      and px: "P x"
      and "list_all P ys"
      and "sorted_wrt (\<lambda>a b. \<not> l a b) ys"
  shows "sorted_wrt (\<lambda>a b. \<not> l a b) (insertionSort_insert l x ys)"
  using assms(4,5)
proof (induction ys)
  case Nil
  then show ?case by simp
next
  case (Cons y ys)
  then have py: "P y" and pys: "list_all P ys"
    by simp_all
  show ?case
  proof (cases "l x y")
    case True
    then have "\<not> l y x" using asym px py by blast
    with True Cons show ?thesis by (auto simp: set_insertionSort_insert)
  next
    case False
    have "\<not> l x z" if z: "z \<in> set ys" for z
    proof -
      have "P z" using pys z by (simp add: list_all_iff)
      moreover have "\<not> l y z" using Cons.prems(2) z by simp
      ultimately show ?thesis using ntrans [OF px py _ False] by blast
    qed
    with False Cons.prems(2) show ?thesis by simp
  qed
qed

lemma sorted_insertionSort:
  assumes asym: "\<And>a b. P a \<Longrightarrow> P b \<Longrightarrow> l a b \<Longrightarrow> \<not> l b a"
      and ntrans: "\<And>a b c. P a \<Longrightarrow> P b \<Longrightarrow> P c \<Longrightarrow> \<not> l a b \<Longrightarrow> \<not> l b c \<Longrightarrow> \<not> l a c"
  shows "list_all P acc \<Longrightarrow> list_all P xs \<Longrightarrow> sorted_wrt (\<lambda>a b. \<not> l a b) acc
           \<Longrightarrow> sorted_wrt (\<lambda>a b. \<not> l a b) (insertionSort l acc xs)"
proof (induction xs arbitrary: acc)
  case Nil
  then show ?case by simp
next
  case (Cons x xs)
  have px: "P x" and pxs: "list_all P xs"
    using Cons.prems(2) by simp_all
  have "sorted_wrt (\<lambda>a b. \<not> l a b) (insertionSort_insert l x acc)"
    using asym ntrans px Cons.prems(1) Cons.prems(3) by (rule sorted_insertionSort_insert)
  moreover have "list_all P (insertionSort_insert l x acc)"
    using px Cons.prems(1) by (simp add: list_all_iff set_insertionSort_insert)
  ultimately show ?case using Cons.IH pxs by simp
qed

lemma sort_Slice_sorted:
  assumes asym: "\<And>a b. P a \<Longrightarrow> P b \<Longrightarrow> l a b \<Longrightarrow> \<not> l b a"
      and ntrans: "\<And>a b c. P a \<Longrightarrow> P b \<Longrightarrow> P c \<Longrightarrow> \<not> l a b \<Longrightarrow> \<not> l b c \<Longrightarrow> \<not> l a c"
      and "list_all P xs"
  shows "sorted_wrt (\<lambda>a b. \<not> l b a) (sort_Slice l xs)"
proof -
  have e: "list_all P []" and s: "sorted_wrt (\<lambda>a b. \<not> l a b) []"
    by simp_all
  have "sorted_wrt (\<lambda>a b. \<not> l a b) (insertionSort l [] xs)"
    using asym ntrans e assms(3) s by (rule sorted_insertionSort)
  then show ?thesis by (simp add: sort_Slice_def sorted_wrt_rev)
qed

lemma sort_Slice_mset: "mset (sort_Slice l xs) = mset xs"
  by (simp add: sort_Slice_def mset_insertionSort)

lemma RankModelsByFit_less_asym: "RankModelsByFit_less a b \<Longrightarrow> \<not> RankModelsByFit_less b a"
  by (auto simp: RankModelsByFit_less_def Let_def fgt_def dest: flt_asym split: if_splits)

text \<open>The comparator is a strict weak order on results whose score is not NaN.\<close>

lemma RankModelsByFit_less_ntrans:
  assumes "Score a \<noteq> NaN" and "Score b \<noteq> NaN" and "Score c \<noteq> NaN"
      and "\<not> RankModelsByFit_less a b" and "\<not> RankModelsByFit_less b c"
  shows "\<not> RankModelsByFit_less a c"
  using assms(4,5) flt_ntrans [OF assms(3) assms(2) assms(1)]
  by (auto simp: RankModelsByFit_less_def Let_def fgt_def split: if_splits)

lemma RankModelsByFit_sorted:
  assumes "NaN \<notin> Score ` set fits"
  shows "sorted_wrt (\<lambda>a b. \<not> RankModelsByFit_less b a) (RankModelsByFit fits)"
  unfolding RankModelsByFit_def
proof (rule sort_Slice_sorted [where P = "\<lambda>f. Score f \<noteq> NaN"])
  show "list_all (\<lambda>f. Score f \<noteq> NaN) fits"
    unfolding list_all_iff using assms by (metis imageI)
qed (auto dest: RankModelsByFit_less_asym RankModelsByFit_less_ntrans)

text \<open>The TooTight entries stay last whatever the scores, NaN included: a comparison
  across the two partitions does not look at the scores.\<close>

lemma partitioned_insertionSort_insert:
  assumes "sorted_wrt (\<lambda>a b. FitLevel b = FitTooTight \<longrightarrow> FitLevel a = FitTooTight) ys"
  shows "sorted_wrt (\<lambda>a b. FitLevel b = FitTooTight \<longrightarrow> FitLevel a = FitTooTight)
           (insertionSort_insert RankModelsByFit_less x ys)"
  using assms
proof (induction ys)
  case Nil
  then show ?case by simp
next
  case (Cons y ys)
  show ?case
  proof (cases "RankModelsByFit_less x y")
    case True
    then have "FitLevel x = FitTooTight \<longrightarrow> FitLevel y = FitTooTight"
      by (auto simp: RankModelsByFit_less_def Let_def split: if_splits)
    with True Cons show ?thesis by (auto simp: set_insertionSort_insert)
  next
    case False
    then have "FitLevel y = FitTooTight \<longrightarrow> FitLevel x = FitTooTight"
      by (auto simp: RankModelsByFit_less_def Let_def split: if_splits)
    with False Cons.prems show ?thesis by auto
  qed
qed

lemma partitioned_insertionSort:
  "sorted_wrt (\<lambda>a b. FitLevel b = FitTooTight \<longrightarrow> FitLevel a = FitTooTight) acc
     \<Longrightarrow> sorted_wrt (\<lambda>a b. FitLevel b = FitTooTight \<longrightarrow> FitLevel a = FitTooTight)
           (insertionSort RankModelsByFit_less acc xs)"
  by (induction xs arbitrary: acc) (simp_all add: partitioned_insertionSort_insert)

lemma RankModelsByFit_partitioned:
  "sorted_wrt (\<lambda>a b. FitLevel a = FitTooTight \<longrightarrow> FitLevel b = FitTooTight)
     (RankModelsByFit fits)"
proof -
  have "sorted_wrt (\<lambda>a b. FitLevel b = FitTooTight \<longrightarrow> FitLevel a = FitTooTight)
          (insertionSort RankModelsByFit_less [] fits)"
    by (rule partitioned_insertionSort) simp
  then show ?thesis
    by (simp add: RankModelsByFit_def sort_Slice_def sorted_wrt_rev)
qed

lemma RankModelsByFit_rankInput:
  "RankModelsByFit rankInput =
     [fitOf FitPerfect (Fin 90) UseCaseGeneral, fitOf FitGood (Fin 70) UseCaseGeneral,
      fitOf FitMarginal (Fin 60) UseCaseGeneral, fitOf FitTooTight (Fin 50) UseCaseGeneral]"
  by (simp add: RankModelsByFit_def rankInput_def sort_Slice_def RankModelsByFit_less_def fitOf_def)

text \<open>Whatever algorithm \<^verbatim>\<open>sort.Slice\<close> runs, a list ordered by the comparator has its
  TooTight entries last and, where no score is NaN, non-increasing scores inside each
  partition.\<close>

lemma ordered_by_RankModelsByFit_less:
  assumes "sorted_wrt (\<lambda>a b. \<not> RankModelsByFit_less b a) ys" and "i < j" and "j < length ys"
      and "NaN \<notin> Score ` set ys"
  shows "(FitLevel (ys ! i) = FitTooTight \<longrightarrow> FitLevel (ys ! j) = FitTooTight)
         \<and> ((FitLevel (ys ! i) = FitTooTight) = (FitLevel (ys ! j) = FitTooTight)
              \<longrightarrow> fle (Score (ys ! j)) (Score (ys ! i)))"
proof -
  have n: "\<not> RankModelsByFit_less (ys ! j) (ys ! i)"
    using assms(1-3) by (simp add: sorted_wrt_iff_nth_less)
  have "ys ! i \<in> set ys" and "ys ! j \<in> set ys"
    using assms(2,3) by simp_all
  then have "Score (ys ! i) \<noteq> NaN" and "Score (ys ! j) \<noteq> NaN"
    using assms(4) by (metis imageI)+
  then have "fle (Score (ys ! j)) (Score (ys ! i)) = (\<not> flt (Score (ys ! i)) (Score (ys ! j)))"
    by (simp add: fle_iff_not_flt)
  with n show ?thesis
    by (auto simp: RankModelsByFit_less_def Let_def fgt_def split: if_splits)
qed

text \<open>A score can be NaN: the parameter-count string nanB is read as the number NaN,
  which goes through the speed estimate into the composite score.\<close>

lemma Analyze_score_NaN:
  "\<exists>r. Analyze stdlib_ascii False (model7B\<lparr>ParameterCount := ''nanB''\<rparr>) (specNoGPU (Fin 32) 8)
          = Inr r \<and> Score r = NaN"
proof -
  define m where "m = model7B\<lparr>ParameterCount := ''nanB''\<rparr>"
  have p: "params_of stdlib_ascii m = NaN"
    by (simp add: m_def params_of_def ParamsB_def model7B_def slice_to_def string_defs
          ParseFloat_defs)
  have f: "MinVRAMGB m = Some (Fin 6)" "ContextLength m = 4096" "Quantization m = ''Q4_K_M''"
    "RecommendedRAMGB m = Fin 12"
    by (simp_all add: m_def model7B_def)
  have s: "TotalCPUCores (specNoGPU (Fin 32) 8) = 8"
    by (simp add: specNoGPU_def)
  have uc: "UseCaseFromModel stdlib_ascii m = UseCaseGeneral"
    by (simp add: m_def UseCaseFromModel_def model7B_def ToLower_def lower_of_def is_ascii_def)
  have sel: "Analyze_select m (specNoGPU (Fin 32) 8) (Fin 6) [] =
      Inr (RunModeCpuOnly, Fin 8, Fin (128 / 5),
           [Note ''CPU-only: model loaded into system RAM''])"
    by (simp add: m_def Analyze_select_def cpuPath_def model7B_def specNoGPU_def)
  have bq: "BestQuantForBudget stdlib_ascii m (Fin (128 / 5)) 4096 = Inr (''Q4_K_M'', NaN)"
    by (simp add: BestQuantForBudget_find estimate_of_def p f QuantHierarchy_def QuantBPP_def)
  have tps: "estimateTPS stdlib_ascii False m ''Q4_K_M'' (specNoGPU (Fin 32) 8) RunModeCpuOnly
      = Inr NaN"
    by (simp add: estimateTPS_cpu_only p s QuantSpeedMultiplier_def fmax_def)
  have q: "qualityScore stdlib_ascii m ''Q4_K_M'' UseCaseGeneral = Inr (Fin 90)"
    by (simp add: qualityScore_def ParamsB_Inr p QuantQualityPenalty_def fge_def)
       (simp add: m_def model7B_def ToLower_def lower_of_def is_ascii_def)
  have sc: "computeScores stdlib_ascii m ''Q4_K_M'' UseCaseGeneral NaN (Fin 8) (Fin (128 / 5))
      = Inr \<lparr>Quality = Fin 90, Speed = NaN, Fit = Fin 85, Context = Fin 100\<rparr>"
    by (simp add: computeScores_def q fitScore_def fdiv_def speedScore_def contextScore_def f
          fgt_def)
  have ws: "weightedScore \<lparr>Quality = Fin 90, Speed = NaN, Fit = Fin 85, Context = Fin 100\<rparr>
      UseCaseGeneral = NaN"
    by (simp add: weightedScore_def)
  show ?thesis
    unfolding m_def [symmetric]
    by (simp add: Analyze_def f s uc sel bq tps sc ws scoreFit_def fdiv_def fgt_def)
qed




subsection \<open>Filtering by use case\<close>

lemma useCaseFromString_None:
  "useCaseFromString lib s = None \<longleftrightarrow>
     ToLower lib s \<notin> {''general'', ''coding'', ''code'', ''reasoning'', ''reason'', ''chat'',
                        ''multimodal'', ''vision'', ''embedding'', ''embed''}"
  by (simp add: useCaseFromString_def Let_def)

lemma FilterByUseCase_Some:
  "useCaseFromString lib label = Some uc
     \<Longrightarrow> FilterByUseCase lib fits label = filter (\<lambda>f. ModelFit.UseCase f = uc) fits"
  by (simp add: FilterByUseCase_def)

text \<open>
  C8. For every list of fit results and every label that \<^verbatim>\<open>strings.ToLower\<close> maps to none
  of the recognized names, \<open>FilterByUseCase\<close> returns its input unchanged; for a label it
  maps to a recognized name, \<open>FilterByUseCase\<close> keeps, in order, exactly the entries whose
  use case is the one the name stands for.
\<close>

theorem FilterByUseCase_label:
  "(ToLower lib label \<notin> {''general'', ''coding'', ''code'', ''reasoning'', ''reason'', ''chat'',
                          ''multimodal'', ''vision'', ''embedding'', ''embed''}
      \<longrightarrow> FilterByUseCase lib fits label = fits)
   \<and> (ToLower lib label = ''general''
      \<longrightarrow> FilterByUseCase lib fits label
            = filter (\<lambda>f. ModelFit.UseCase f = UseCaseGeneral) fits)
   \<and> (ToLower lib label \<in> {''coding'', ''code''}
      \<longrightarrow> FilterByUseCase lib fits label
            = filter (\<lambda>f. ModelFit.UseCase f = UseCaseCoding) fits)
   \<and> (ToLower lib label \<in> {''reasoning'', ''reason''}
      \<longrightarrow> FilterByUseCase lib fits label
            = filter (\<lambda>f. ModelFit.UseCase f = UseCaseReasoning) fits)
   \<and> (ToLower lib label = ''chat''
      \<longrightarrow> FilterByUseCase lib fits label
            = filter (\<lambda>f. ModelFit.UseCase f = UseCaseChat) fits)
   \<and> (ToLower lib label \<in> {''multimodal'', ''vision''}
      \<longrightarrow> FilterByUseCase lib fits label
            = filter (\<lambda>f. ModelFit.UseCase f = UseCaseMultimodal) fits)
   \<and> (ToLower lib label \<in> {''embedding'', ''embed''}
      \<longrightarrow> FilterByUseCase lib fits label
            = filter (\<lambda>f. ModelFit.UseCase f = UseCaseEmbedding) fits)"
proof (intro conjI impI)
  assume "ToLower lib label \<notin> {''general'', ''coding'', ''code'', ''reasoning'', ''reason'',
                                 ''chat'', ''multimodal'', ''vision'', ''embedding'', ''embed''}"
  then have "useCaseFromString lib label = None"
    by (rule useCaseFromString_None [THEN iffD2])
  then show "FilterByUseCase lib fits label = fits"
    by (simp add: FilterByUseCase_def)
next
  assume "ToLower lib label = ''general''"
  then have "useCaseFromString lib label = Some UseCaseGeneral"
    by (simp add: useCaseFromString_def)
  then show "FilterByUseCase lib fits label
               = filter (\<lambda>f. ModelFit.UseCase f = UseCaseGeneral) fits"
    by (rule FilterByUseCase_Some)
next
  assume "ToLower lib label \<in> {''coding'', ''code''}"
  then have "useCaseFromString lib label = Some UseCaseCoding"
    by (auto simp add: useCaseFromString_def)
  then show "FilterByUseCase lib fits label
               = filter (\<lambda>f. ModelFit.UseCase f = UseCaseCoding) fits"
    by (rule FilterByUseCase_Some)
next
  assume "ToLower lib label \<in> {''reasoning'', ''reason''}"
  then have "useCaseFromString lib label = Some UseCaseReasoning"
    by (auto simp add: useCaseFromString_def)
  then show "FilterByUseCase lib fits label
               = filter (\<lambda>f. ModelFit.UseCase f = UseCaseReasoning) fits"
    by (rule FilterByUseCase_Some)
next
  assume "ToLower lib label = ''chat''"
  then have "useCaseFromString lib label = Some UseCaseChat"
    by (simp add: useCaseFromString_def)
  then show "FilterByUseCase lib fits label = filter (\<lambda>f. ModelFit.UseCase f = UseCaseChat) fits"
    by (rule FilterByUseCase_Some)
next
  assume "ToLower lib label \<in> {''multimodal'', ''vision''}"
  then have "useCaseFromString lib label = Some UseCaseMultimodal"
    by (auto simp add: useCaseFromString_def)
  then show "FilterByUseCase lib fits label
               = filter (\<lambda>f. ModelFit.UseCase f = UseCaseMultimodal) fits"
    by (rule FilterByUseCase_Some)
next
  assume "ToLower lib label \<in> {''embedding'', ''embed''}"
  then have "useCaseFromString lib label = Some UseCaseEmbedding"
    by (auto simp add: useCaseFromString_def)
  then show "FilterByUseCase lib fits label
               = filter (\<lambda>f. ModelFit.UseCase f = UseCaseEmbedding) fits"
    by (rule FilterByUseCase_Some)
qed

text \<open>The label of \<^verbatim>\<open>TestFilterByUseCase\<close> that is no use case, and a recognized label in
  mixed case.\<close>

theorem FilterByUseCase_label_witness:
  "ToLower stdlib_ascii ''unknown-uc'' = ''unknown-uc''
   \<and> ToLower stdlib_ascii ''Coding'' = ''coding''
   \<and> FilterByUseCase stdlib_ascii useCaseInput ''unknown-uc'' = useCaseInput
   \<and> FilterByUseCase stdlib_ascii useCaseInput ''Coding''
       = [fitOf FitMarginal (Fin 70) UseCaseCoding]"
  using FilterByUseCase_label [of stdlib_ascii "''unknown-uc''" useCaseInput]
        FilterByUseCase_label [of stdlib_ascii "''Coding''" useCaseInput]
  by (simp add: ToLower_def lower_of_def is_ascii_def) (simp add: useCaseInput_def fitOf_def)

end
